theory Spec2Isabelle
  imports Complex_Main
begin

section \<open>Podocyte profiler: a shallow embedding of \<open>podocytes/main.py\<close> and \<open>podocytes/util.py\<close>\<close>

text \<open>
  Conventions of the embedding.
  \<^item> Python exceptions are values of the type \<open>error\<close>; a function that can raise
    returns \<open>error + 'a\<close> with \<open>Inl\<close> for the exception.
  \<^item> Python integers are \<open>int\<close>. Floating point numbers are idealised as \<open>real\<close>:
    rounding, infinities and the not-a-number of arithmetic are not modelled (the
    not-a-number that pandas writes into a missing cell is the cell \<open>NaN\<close>).
  \<^item> Functions of numpy, scikit-image, pims and the operating system are not part of the
    repository. They are parameters: the record \<open>library\<close> holds the image-processing
    functions, \<open>os_walk\<close> the directory listing and \<open>pims_open\<close> the decoder.
\<close>

datatype error = ValueError | IndexError | KeyError | AttributeError | TypeError | RuntimeError


subsection \<open>File discovery\<close>

definition endswith :: "string \<Rightarrow> string \<Rightarrow> bool" where
  "endswith f ext = (length ext \<le> length f \<and> drop (length f - length ext) f = ext)"

definition startswith :: "string \<Rightarrow> string \<Rightarrow> bool" where
  "startswith f p = (take (length p) f = p)"

text \<open>\<open>os.path.join\<close> of two components, as \<open>posixpath\<close> defines it.\<close>

definition os_path_join :: "string \<Rightarrow> string \<Rightarrow> string" where
  "os_path_join dirpath f =
     (if startswith f ''/'' then f
      else if dirpath = [] \<or> endswith dirpath ''/'' then dirpath @ f
      else dirpath @ ''/'' @ f)"

text \<open>
  \<open>os.walk\<close> yields one triple (dirpath, directory names, file names) per directory below the
  input directory; the file system is the parameter \<open>os_walk\<close>.
\<close>

type_synonym walk = "(string \<times> string list \<times> string list) list"

text \<open>\<open>find_files\<close> of \<open>main.py\<close> (lines 300-321), the one \<open>main\<close> calls.\<close>

definition find_files :: "(string \<Rightarrow> walk) \<Rightarrow> string \<Rightarrow> string \<Rightarrow> string list" where
  "find_files os_walk input_directory ext =
     concat (map (\<lambda>(dirpath, dirs, files).
                    map (os_path_join dirpath) (filter (\<lambda>f. endswith f ext) files))
                 (os_walk input_directory))"

text \<open>\<open>find_files\<close> of \<open>util.py\<close> (lines 13-35), with its hidden-file test.\<close>

definition util_find_files :: "(string \<Rightarrow> walk) \<Rightarrow> string \<Rightarrow> string \<Rightarrow> string list" where
  "util_find_files os_walk input_directory ext =
     concat (map (\<lambda>(dirpath, dirs, files).
                    map (os_path_join dirpath)
                      (filter (\<lambda>f. endswith f ext \<and> \<not> startswith f ''.'') files))
                 (os_walk input_directory))"

text \<open>The files of a walk, each with its directory, in the order of the walk.\<close>

definition walk_files :: "walk \<Rightarrow> (string \<times> string) list" where
  "walk_files w = concat (map (\<lambda>(dirpath, dirs, files). map (Pair dirpath) files) w)"


subsection \<open>Arrays, regions and the image-processing library\<close>

text \<open>
  An n-dimensional numpy array is its shape and the value at each index tuple (only the
  index tuples inside the shape matter). \<open>indices\<close> lists the index tuples of a shape in
  row-major order, the order in which numpy flattens.
\<close>

record 'a ndarray =
  shape :: "nat list"
  item :: "nat list \<Rightarrow> 'a"

definition ndim :: "'a ndarray \<Rightarrow> nat" where
  "ndim a = length (shape a)"

fun indices :: "nat list \<Rightarrow> nat list list" where
  "indices [] = [[]]"
| "indices (n # ns) = concat (map (\<lambda>i. map (Cons i) (indices ns)) [0..<n])"

definition flatten :: "'a ndarray \<Rightarrow> 'a list" where
  "flatten a = map (item a) (indices (shape a))"

text \<open>
  The attributes of a scikit-image \<open>RegionProperties\<close> object that the program reads.
  \<open>bbox\<close> is (min per axis, then max per axis), half-open.
\<close>

record region =
  label :: int
  area :: int
  filled_area :: int
  bbox :: "int list"
  centroid :: "real list"
  equivalent_diameter :: real

text \<open>
  The functions of scikit-image and numpy that the program calls: \<open>gaussian\<close> (image,
  sigma), \<open>threshold_yen\<close>, \<open>skimage.measure.label\<close> (here \<open>measure_label\<close>, since
  \<open>label\<close> is also the region attribute), \<open>regionprops\<close> (label image, optional
  intensity image), \<open>blob_dog\<close> (image, min_sigma, max_sigma, threshold; one row of
  coordinates and sigma per blob), \<open>watershed\<close> (elevation image, markers) and
  \<open>np.gradient\<close> (one array per axis). \<open>gaussian\<close> and \<open>np.gradient\<close> refuse some
  arguments (a sigma of the wrong length, an axis shorter than two), so they return
  \<open>error + _\<close>; the others are taken as total.
\<close>

record library =
  gaussian :: "real ndarray \<Rightarrow> real list \<Rightarrow> error + real ndarray"
  threshold_yen :: "real ndarray \<Rightarrow> real"
  measure_label :: "bool ndarray \<Rightarrow> int ndarray"
  regionprops :: "int ndarray \<Rightarrow> real ndarray option \<Rightarrow> region list"
  blob_dog :: "real ndarray \<Rightarrow> real \<Rightarrow> real \<Rightarrow> real \<Rightarrow> real list list"
  watershed :: "real ndarray \<Rightarrow> int ndarray \<Rightarrow> int ndarray"
  np_gradient :: "real ndarray \<Rightarrow> error + real ndarray list"

text \<open>
  A pims frame: the pixel array and the metadata entries \<open>mpp\<close>, \<open>mppZ\<close> and \<open>axes\<close> that
  the program reads (an axis label is one character).
\<close>

record frame =
  pixels :: "real ndarray"
  mpp :: real
  mppZ :: real
  axes :: string


subsection \<open>\<open>filter_by_size\<close> (lines 270-297)\<close>

definition filter_by_size :: "library \<Rightarrow> int ndarray \<Rightarrow> real \<Rightarrow> real \<Rightarrow> region list" where
  "filter_by_size lib label_image min_diameter max_diameter =
     filter (\<lambda>r. equivalent_diameter r \<ge> min_diameter \<and> equivalent_diameter r \<le> max_diameter)
            (regionprops lib label_image None)"


subsection \<open>\<open>denoise_image\<close> (lines 244-267) and \<open>preprocess_glomeruli\<close> (lines 566-582)\<close>

text \<open>
  The loop over the axis labels: \<open>x\<close> and \<open>y\<close> append the xy pixel size, \<open>z\<close> the z pixel
  size, and the \<open>if\<close>/\<open>elif\<close> chain has no \<open>else\<close>: any other label appends nothing.
\<close>

fun voxel_dimensions :: "real \<Rightarrow> real \<Rightarrow> string \<Rightarrow> real list" where
  "voxel_dimensions xy_pixel_size z_pixel_size [] = []"
| "voxel_dimensions xy_pixel_size z_pixel_size (i # labels) =
     (if i = CHR ''x'' \<or> i = CHR ''y'' then xy_pixel_size # voxel_dimensions xy_pixel_size z_pixel_size labels
      else if i = CHR ''z'' then z_pixel_size # voxel_dimensions xy_pixel_size z_pixel_size labels
      else voxel_dimensions xy_pixel_size z_pixel_size labels)"

definition np_divide :: "real \<Rightarrow> real list \<Rightarrow> real list" where
  "np_divide x ys = map (\<lambda>y. x / y) ys"

definition denoise_image :: "library \<Rightarrow> frame \<Rightarrow> error + real ndarray" where
  "denoise_image lib img =
     (let xy_pixel_size = mpp img;
          z_pixel_size = mppZ img;
          sigma = np_divide xy_pixel_size (voxel_dimensions xy_pixel_size z_pixel_size (axes img))
      in gaussian lib (pixels img) sigma)"

definition greater_than :: "real ndarray \<Rightarrow> real \<Rightarrow> bool ndarray" where
  "greater_than a t = \<lparr>shape = shape a, item = (\<lambda>idx. item a idx > t)\<rparr>"

definition preprocess_glomeruli :: "library \<Rightarrow> frame \<Rightarrow> error + int ndarray" where
  "preprocess_glomeruli lib glomeruli_view =
     (case denoise_image lib glomeruli_view of
        Inl e \<Rightarrow> Inl e
      | Inr denoised \<Rightarrow>
          Inr (measure_label lib (greater_than denoised (threshold_yen lib denoised))))"


subsection \<open>Data frames\<close>

text \<open>
  A pandas \<open>DataFrame\<close> is its list of column names and its rows in order (every append
  uses \<open>ignore_index=True\<close>, so the index is the position). A row gives each column
  name a cell; a cell that was never written is \<open>NaN\<close>, as pandas fills it.
\<close>

datatype cell = Num real | Str string | NaN

type_synonym row = "string \<Rightarrow> cell"

record dataframe =
  columns :: "string list"
  rows :: "row list"

definition DataFrame :: dataframe where
  "DataFrame = \<lparr>columns = [], rows = []\<rparr>"

definition len :: "dataframe \<Rightarrow> nat" where
  "len df = length (rows df)"

text \<open>The row of a dictionary, and the new column names an append brings.\<close>

definition row_of :: "(string \<times> cell) list \<Rightarrow> row" where
  "row_of contents = (\<lambda>c. case map_of contents c of Some v \<Rightarrow> v | None \<Rightarrow> NaN)"

definition union_columns :: "string list \<Rightarrow> string list \<Rightarrow> string list" where
  "union_columns cs ds = cs @ filter (\<lambda>c. c \<notin> set cs) (remdups ds)"

text \<open>\<open>df.append(contents, ignore_index=True, sort=False)\<close> for a dictionary.\<close>

definition append_dict :: "dataframe \<Rightarrow> (string \<times> cell) list \<Rightarrow> dataframe" where
  "append_dict df contents =
     \<lparr>columns = union_columns (columns df) (map fst contents),
      rows = rows df @ [row_of contents]\<rparr>"

text \<open>\<open>df.append(other, ignore_index=True, sort=False)\<close> for a data frame.\<close>

definition append_frame :: "dataframe \<Rightarrow> dataframe \<Rightarrow> dataframe" where
  "append_frame df other =
     \<lparr>columns = union_columns (columns df) (columns other),
      rows = rows df @ rows other\<rparr>"

text \<open>
  \<open>df[c] = v\<close> for a scalar \<open>v\<close>: the column is created when it is new, and every row of
  the frame gets the value.
\<close>

definition setitem :: "dataframe \<Rightarrow> string \<Rightarrow> cell \<Rightarrow> dataframe" where
  "setitem df c v =
     \<lparr>columns = (if c \<in> set (columns df) then columns df else columns df @ [c]),
      rows = map (\<lambda>r. r(c := v)) (rows df)\<rparr>"

text \<open>\<open>df[c]\<close>: the cells of one column; a column the frame does not have is a KeyError.\<close>

definition getitem :: "dataframe \<Rightarrow> string \<Rightarrow> error + cell list" where
  "getitem df c = (if c \<in> set (columns df) then Inr (map (\<lambda>r. r c) (rows df)) else Inl KeyError)"

text \<open>\<open>df[cols]\<close> for a list of column names: the projection onto these columns.\<close>

definition getitem_columns :: "dataframe \<Rightarrow> string list \<Rightarrow> error + dataframe" where
  "getitem_columns df cols =
     (if list_all (\<lambda>c. c \<in> set (columns df)) cols
      then Inr \<lparr>columns = cols, rows = map (\<lambda>r c. if c \<in> set cols then r c else NaN) (rows df)\<rparr>
      else Inl KeyError)"

text \<open>
  \<open>df.drop_duplicates()\<close>: a row is dropped when an earlier row has the same cells in all
  columns of the frame; the first row of each group stays (\<open>keep='first'\<close>).
\<close>

fun keep_first :: "('a \<Rightarrow> 'k) \<Rightarrow> 'k list \<Rightarrow> 'a list \<Rightarrow> 'a list" where
  "keep_first key seen [] = []"
| "keep_first key seen (x # xs) =
     (if key x \<in> set seen then keep_first key seen xs
      else x # keep_first key (key x # seen) xs)"

definition cells :: "string list \<Rightarrow> row \<Rightarrow> cell list" where
  "cells cols r = map r cols"

definition drop_duplicates :: "dataframe \<Rightarrow> dataframe" where
  "drop_duplicates df = \<lparr>columns = columns df, rows = keep_first (cells (columns df)) [] (rows df)\<rparr>"

text \<open>
  \<open>np.mean\<close> of a column: pandas skips the missing cells, and no number at all gives NaN.
  The program writes only numbers into the columns it averages. For a column with a
  string cell pandas adds the cells with Python's \<open>+\<close> and then converts the sum, which
  gives a TypeError or, for strings alone, the number their concatenation spells; this
  is not modelled, and the model returns TypeError for every string cell.
\<close>

fun numbers :: "cell list \<Rightarrow> error + real list" where
  "numbers [] = Inr []"
| "numbers (Num x # cs) = (case numbers cs of Inl e \<Rightarrow> Inl e | Inr xs \<Rightarrow> Inr (x # xs))"
| "numbers (NaN # cs) = numbers cs"
| "numbers (Str s # cs) = Inl TypeError"

definition np_mean :: "real list \<Rightarrow> real" where
  "np_mean xs = sum_list xs / real (length xs)"

definition mean_of_column :: "dataframe \<Rightarrow> string \<Rightarrow> error + cell" where
  "mean_of_column df c =
     (case getitem df c of
        Inl e \<Rightarrow> Inl e
      | Inr cs \<Rightarrow>
          (case numbers cs of
             Inl e \<Rightarrow> Inl e
           | Inr xs \<Rightarrow> Inr (if xs = [] then NaN else Num (np_mean xs))))"


subsection \<open>\<open>create_summary_stats\<close> (lines 159-191)\<close>

definition summary_columns :: "string list" where
  "summary_columns =
     [''image_filename'',
      ''image_series_name'',
      ''image_series_num'',
      ''glomeruli_index'',
      ''glomeruli_label_number'',
      ''glomeruli_voxel_number'',
      ''glomeruli_volume'',
      ''glomeruli_equiv_diam_pixels'',
      ''glomeruli_centroid_x'',
      ''glomeruli_centroid_y'',
      ''glomeruli_centroid_z'',
      ''number_of_podocytes'',
      ''avg_podocyte_voxel_number'',
      ''avg_podocyte_volume'',
      ''podocyte_density'']"

definition create_summary_stats :: "dataframe \<Rightarrow> error + dataframe option" where
  "create_summary_stats df =
     (if len df = 0 then Inr None
      else (case getitem_columns df summary_columns of
              Inl e \<Rightarrow> Inl e
            | Inr projected \<Rightarrow> Inr (Some (drop_duplicates projected))))"


subsection \<open>\<open>podocyte_statistics\<close> (lines 421-457)\<close>

text \<open>
  \<open>real_podocyte_centroid\<close>: the tuple built over \<open>range(len(pod.centroid))\<close>; reading
  \<open>centroid_offset[dim]\<close> past the end of the offset is an IndexError.
\<close>

definition real_podocyte_centroid :: "real list \<Rightarrow> int list \<Rightarrow> error + real list" where
  "real_podocyte_centroid c centroid_offset =
     (if length centroid_offset < length c then Inl IndexError
      else Inr (map (\<lambda>dim. c ! dim + real_of_int (centroid_offset ! dim)) [0..<length c]))"

text \<open>
  The dictionary of one podocyte; it reads the components 2, 1 and 0 of the translated
  centroid, an IndexError when the centroid has fewer than three.
\<close>

definition contents :: "region \<Rightarrow> real list \<Rightarrow> real \<Rightarrow> error + (string \<times> cell) list" where
  "contents pod real_centroid voxel_volume =
     (if length real_centroid < 3 then Inl IndexError
      else Inr [(''podocyte_label_number'', Num (real_of_int (label pod))),
                (''podocyte_voxel_number'', Num (real_of_int (area pod))),
                (''podocyte_volume'', Num (real_of_int (area pod) * voxel_volume)),
                (''podocyte_equiv_diam_pixels'', Num (equivalent_diameter pod)),
                (''podocyte_centroid_x'', Num (real_centroid ! 2)),
                (''podocyte_centroid_y'', Num (real_centroid ! 1)),
                (''podocyte_centroid_z'', Num (real_centroid ! 0))])"

fun podocyte_loop :: "dataframe \<Rightarrow> region list \<Rightarrow> int list \<Rightarrow> real \<Rightarrow> error + dataframe" where
  "podocyte_loop df [] centroid_offset voxel_volume = Inr df"
| "podocyte_loop df (pod # podocyte_regions) centroid_offset voxel_volume =
     (case real_podocyte_centroid (centroid pod) centroid_offset of
        Inl e \<Rightarrow> Inl e
      | Inr real_centroid \<Rightarrow>
          (case contents pod real_centroid voxel_volume of
             Inl e \<Rightarrow> Inl e
           | Inr d \<Rightarrow> podocyte_loop (append_dict df d) podocyte_regions centroid_offset voxel_volume))"

text \<open>The result is \<open>None\<close> when the frame has no row, the frame otherwise.\<close>

definition podocyte_statistics :: "region list \<Rightarrow> int list \<Rightarrow> real \<Rightarrow> error + dataframe option" where
  "podocyte_statistics podocyte_regions centroid_offset voxel_volume =
     (case podocyte_loop DataFrame podocyte_regions centroid_offset voxel_volume of
        Inl e \<Rightarrow> Inl e
      | Inr df \<Rightarrow> Inr (if len df > 0 then Some df else None))"


subsection \<open>\<open>podocyte_avg_statistics\<close> (lines 398-418) and \<open>glom_statistics\<close> (lines 365-395)\<close>

definition podocyte_avg_statistics :: "dataframe \<Rightarrow> error + dataframe" where
  "podocyte_avg_statistics df =
     (case mean_of_column df ''podocyte_voxel_number'' of
        Inl e \<Rightarrow> Inl e
      | Inr m1 \<Rightarrow>
     (let df1 = setitem df ''avg_podocyte_voxel_number'' m1 in
      case mean_of_column df1 ''podocyte_volume'' of
        Inl e \<Rightarrow> Inl e
      | Inr m2 \<Rightarrow>
     (let df2 = setitem df1 ''avg_podocyte_volume'' m2 in
      case mean_of_column df2 ''podocyte_equiv_diam_pixels'' of
        Inl e \<Rightarrow> Inl e
      | Inr m3 \<Rightarrow> Inr (setitem df2 ''avg_podocyte_equiv_diam_pixels'' m3))))"

text \<open>
  The ten assignments of \<open>glom_statistics\<close>, in the order of the source. \<open>len(df)\<close> does not
  change between them. Reading \<open>glom.centroid[2]\<close> is an IndexError for a centroid of
  fewer than three components.
\<close>

definition glom_statistics :: "dataframe \<Rightarrow> region \<Rightarrow> int \<Rightarrow> real \<Rightarrow> error + dataframe" where
  "glom_statistics df glom glom_index voxel_volume =
     (let df1 = setitem df ''number_of_podocytes'' (Num (real (len df)));
          df2 = setitem df1 ''podocyte_density''
                  (Num (real (len df1) / (real_of_int (filled_area glom) * voxel_volume)));
          df3 = setitem df2 ''glomeruli_index'' (Num (real_of_int glom_index));
          df4 = setitem df3 ''glomeruli_label_number'' (Num (real_of_int (label glom)));
          df5 = setitem df4 ''glomeruli_voxel_number'' (Num (real_of_int (filled_area glom)));
          df6 = setitem df5 ''glomeruli_volume'' (Num (real_of_int (filled_area glom) * voxel_volume));
          df7 = setitem df6 ''glomeruli_equiv_diam_pixels'' (Num (equivalent_diameter glom))
      in if length (centroid glom) < 3 then Inl IndexError
         else Inr (setitem (setitem (setitem df7
                ''glomeruli_centroid_x'' (Num (centroid glom ! 2)))
                ''glomeruli_centroid_y'' (Num (centroid glom ! 1)))
                ''glomeruli_centroid_z'' (Num (centroid glom ! 0))))"


subsection \<open>\<open>crop_region_of_interest\<close> (lines 194-241)\<close>

text \<open>
  Python's \<open>slice(start, stop, 1)\<close> on an axis of length \<open>n\<close>: a negative bound counts from
  the end, both bounds are clipped to the axis, and the slice selects \<open>slice_count\<close>
  positions from \<open>slice_index n start\<close> on.
\<close>

definition slice_index :: "nat \<Rightarrow> int \<Rightarrow> nat" where
  "slice_index n i = (if i < 0 then nat (max (i + int n) 0) else nat (min i (int n)))"

definition slice_count :: "nat \<Rightarrow> int \<times> int \<Rightarrow> nat" where
  "slice_count n sl = slice_index n (snd sl) - slice_index n (fst sl)"

definition slice_starts :: "nat list \<Rightarrow> (int \<times> int) list \<Rightarrow> nat list" where
  "slice_starts shp slicer = map2 (\<lambda>n sl. slice_index n (fst sl)) shp slicer"

definition slice_counts :: "nat list \<Rightarrow> (int \<times> int) list \<Rightarrow> nat list" where
  "slice_counts shp slicer = map2 slice_count shp slicer"

text \<open>\<open>a[slicer]\<close> for one slice per axis.\<close>

definition getitem_slices :: "'a ndarray \<Rightarrow> (int \<times> int) list \<Rightarrow> 'a ndarray" where
  "getitem_slices a slicer =
     \<lparr>shape = slice_counts (shape a) slicer,
      item = (\<lambda>idx. item a (map2 (+) (slice_starts (shape a) slicer) idx))\<rparr>"

text \<open>
  \<open>dst[slicer] = src\<close> for arrays of the same number of axes: numpy broadcasts \<open>src\<close> to the
  selected block (an axis of \<open>src\<close> must have the block's length, or length 1) and raises
  ValueError when it cannot.
\<close>

definition inside :: "nat list \<Rightarrow> nat list \<Rightarrow> nat list \<Rightarrow> bool" where
  "inside starts counts idx =
     list_all2 (\<lambda>i sc. fst sc \<le> i \<and> i < fst sc + snd sc) idx (zip starts counts)"

definition source_index :: "nat list \<Rightarrow> nat list \<Rightarrow> nat list \<Rightarrow> nat list" where
  "source_index starts src_shape idx =
     map (\<lambda>(i, s, n). if n = 1 then 0 else i - s) (zip idx (zip starts src_shape))"

definition setitem_slices :: "'a ndarray \<Rightarrow> (int \<times> int) list \<Rightarrow> 'a ndarray \<Rightarrow> error + 'a ndarray" where
  "setitem_slices dst slicer src =
     (let starts = slice_starts (shape dst) slicer;
          counts = slice_counts (shape dst) slicer
      in if list_all2 (\<lambda>s c. s = c \<or> s = 1) (shape src) counts
         then Inr \<lparr>shape = shape dst,
                   item = (\<lambda>idx. if inside starts counts idx
                                  then item src (source_index starts (shape src) idx)
                                  else item dst idx)\<rparr>
         else Inl ValueError)"

definition np_full :: "int list \<Rightarrow> 'a \<Rightarrow> 'a ndarray" where
  "np_full shp v = \<lparr>shape = map nat shp, item = (\<lambda>idx. v)\<rparr>"

text \<open>
  The bounding box has the minima of the \<open>ndims\<close> axes and then their maxima (the
  \<open>bbox\<close> of \<open>regionprops\<close>, as the docstring says): \<open>bbox[:ndims]\<close> and \<open>bbox[ndims:]\<close>.
  For a box of another length the two arrays differ in length from the image's shape:
  \<open>clip(max=max_image_size)\<close> (line 224) raises ValueError unless the array of maxima
  broadcasts against the shape (equal lengths, or one of them 1), and line 225 raises
  IndexError when it reads \<open>[dim]\<close> past the end of an array. Otherwise only the entries
  \<open>[dim]\<close> for \<open>dim < ndims\<close> are read, which \<open>zip\<close> keeps here; so a one-axis image
  ignores surplus entries of the box. \<open>np.ones(size) * mean\<close> is the array filled with the
  mean; the mean of an empty block, which numpy gives as not-a-number, is not modelled,
  and numpy's 64-bit coordinates are \<open>int\<close>.
\<close>

definition crop_region_of_interest ::
    "real ndarray \<Rightarrow> int list \<Rightarrow> int \<Rightarrow> string \<Rightarrow> error + real ndarray" where
  "crop_region_of_interest img box margin pad_mode =
     (let ndims = ndim img;
          max_image_size = map int (shape img);
          bbox_min_plus_margin = map (\<lambda>coord. coord - margin) (take ndims box);
          bbox_max_plus_margin = map (\<lambda>coord. coord + margin) (drop ndims box);
          image_min_coords = map (\<lambda>c. max c 0) bbox_min_plus_margin;
          image_max_coords = map2 min bbox_max_plus_margin max_image_size;
          max_roi_size = map2 (\<lambda>hi lo. \<bar>hi - lo\<bar>) bbox_max_plus_margin bbox_min_plus_margin;
          roi_min_coord = map2 (\<lambda>a b. \<bar>a - b\<bar>) image_min_coords bbox_min_plus_margin;
          roi_max_coord = map2 (-) max_roi_size
                            (map2 (\<lambda>a b. \<bar>a - b\<bar>) bbox_max_plus_margin image_max_coords);
          image_slicer = zip image_min_coords image_max_coords;
          roi_slicer = zip roi_min_coord roi_max_coord
      in if \<not> (length bbox_max_plus_margin = ndims \<or> length bbox_max_plus_margin = 1 \<or> ndims = 1)
           then Inl ValueError
         else if length bbox_max_plus_margin < ndims \<or> length bbox_min_plus_margin < ndims
           then Inl IndexError
         else if pad_mode = ''zeros''
           then setitem_slices (np_full max_roi_size 0) roi_slicer (getitem_slices img image_slicer)
         else if pad_mode = ''mean''
           then setitem_slices
                  (np_full max_roi_size (1 * np_mean (flatten (getitem_slices img image_slicer))))
                  roi_slicer (getitem_slices img image_slicer)
         else Inl ValueError)"


subsection \<open>\<open>gradient_of_image\<close> (lines 460-465), \<open>blob_dog_image\<close> (lines 98-118),
  \<open>marker_controlled_watershed\<close> (lines 542-563)\<close>

text \<open>
  \<open>np.gradient\<close> gives a list of arrays, one per axis and each of the shape of the image;
  \<open>np.stack\<close> puts them along a new last axis, and the sum of the absolute values over that
  axis is the result. Two cases differ. For an image of one axis \<open>np.gradient\<close> gives the
  array itself and not a list (here: the list of that one array), \<open>np.stack\<close> then stacks
  its elements, and the sum is a single number, an array without axes. For an image
  without axes the list is empty, and \<open>np.stack\<close> raises ValueError.
\<close>

definition gradient_of_image :: "library \<Rightarrow> real ndarray \<Rightarrow> error + real ndarray" where
  "gradient_of_image lib img =
     (case np_gradient lib img of
        Inl e \<Rightarrow> Inl e
      | Inr [] \<Rightarrow> Inl ValueError
      | Inr (g # gs) \<Rightarrow>
          if ndim img = 1
          then Inr \<lparr>shape = [], item = (\<lambda>idx. sum_list (map (\<lambda>x. \<bar>x\<bar>) (flatten g)))\<rparr>
          else Inr \<lparr>shape = shape img,
                    item = (\<lambda>idx. sum_list (map (\<lambda>g. \<bar>item g idx\<bar>) (g # gs)))\<rparr>)"

text \<open>Python's \<open>int\<close> of a float truncates towards zero.\<close>

definition py_int :: "real \<Rightarrow> int" where
  "py_int x = (if x \<ge> 0 then \<lfloor>x\<rfloor> else \<lceil>x\<rceil>)"

text \<open>An index into an axis of length \<open>n\<close>: negative indices count from the end.\<close>

definition axis_index :: "nat \<Rightarrow> int \<Rightarrow> nat option" where
  "axis_index n i =
     (if 0 \<le> i \<and> i < int n then Some (nat i)
      else if - int n \<le> i \<and> i < 0 then Some (nat (i + int n))
      else None)"

text \<open>
  \<open>blob_map[int(blob[0]), int(blob[1]), int(blob[2])] = True\<close> for each blob: three indices,
  so an image of fewer than three axes, a blob row of fewer than three entries and an
  index outside its axis are IndexErrors.
\<close>

fun blob_dog_loop :: "real list list \<Rightarrow> bool ndarray \<Rightarrow> error + bool ndarray" where
  "blob_dog_loop [] blob_map = Inr blob_map"
| "blob_dog_loop (blob # blobs) blob_map =
     (if length blob < 3 \<or> ndim blob_map < 3 then Inl IndexError
      else (case (axis_index (shape blob_map ! 0) (py_int (blob ! 0)),
                  axis_index (shape blob_map ! 1) (py_int (blob ! 1)),
                  axis_index (shape blob_map ! 2) (py_int (blob ! 2))) of
              (Some i, Some j, Some k) \<Rightarrow>
                blob_dog_loop blobs
                  (blob_map\<lparr>item := (\<lambda>idx. if take 3 idx = [i, j, k] then True
                                             else item blob_map idx)\<rparr>)
            | _ \<Rightarrow> Inl IndexError))"

definition blob_dog_image :: "real list list \<Rightarrow> nat list \<Rightarrow> error + bool ndarray" where
  "blob_dog_image blobs image_shape =
     blob_dog_loop blobs \<lparr>shape = image_shape, item = (\<lambda>idx. False)\<rparr>"

text \<open>\<open>np.max\<close> of a boolean array; an array without elements is a ValueError.\<close>

definition np_max :: "bool ndarray \<Rightarrow> error + bool" where
  "np_max a = (if 0 \<in> set (shape a) then Inl ValueError
               else Inr (list_ex (item a) (indices (shape a))))"

text \<open>
  \<open>seeds[0] = v\<close>: every element whose first index is 0 is set; the value is cast to the
  array's boolean type. An array without axes, or with an empty first axis, is an
  IndexError.
\<close>

definition setitem_first :: "bool ndarray \<Rightarrow> int \<Rightarrow> error + bool ndarray" where
  "setitem_first a v =
     (if shape a = [] \<or> hd (shape a) = 0 then Inl IndexError
      else Inr (a\<lparr>item := (\<lambda>idx. if hd idx = 0 then v \<noteq> 0 else item a idx)\<rparr>))"

text \<open>
  \<open>wshed[wshed == m] = 0\<close> for the boolean \<open>m = np.max(seeds)\<close>: the comparison of an
  integer array with a boolean reads \<open>True\<close> as 1 and \<open>False\<close> as 0.
\<close>

definition reset_label :: "int ndarray \<Rightarrow> bool \<Rightarrow> int ndarray" where
  "reset_label wshed m =
     wshed\<lparr>item := (\<lambda>idx. if item wshed idx = (if m then 1 else 0) then 0 else item wshed idx)\<rparr>"

definition marker_controlled_watershed ::
    "library \<Rightarrow> real ndarray \<Rightarrow> real list list \<Rightarrow> error + int ndarray" where
  "marker_controlled_watershed lib grayscale_image marker_coords =
     (case gradient_of_image lib grayscale_image of
        Inl e \<Rightarrow> Inl e
      | Inr gradient_image \<Rightarrow>
     (case blob_dog_image marker_coords (shape grayscale_image) of
        Inl e \<Rightarrow> Inl e
      | Inr seeds \<Rightarrow>
     (case np_max seeds of
        Inl e \<Rightarrow> Inl e
      | Inr m \<Rightarrow>
     (case setitem_first seeds ((if m then 1 else 0) + 1) of
        Inl e \<Rightarrow> Inl e
      | Inr seeds' \<Rightarrow>
     (let wshed = watershed lib gradient_image (measure_label lib seeds') in
      case np_max seeds' of
        Inl e \<Rightarrow> Inl e
      | Inr m' \<Rightarrow> Inr (reset_label wshed m'))))))"


subsection \<open>\<open>find_podocytes\<close> (lines 324-362)\<close>

definition find_podocytes ::
    "library \<Rightarrow> real ndarray \<Rightarrow> region \<Rightarrow> real \<Rightarrow> real \<Rightarrow> real
       \<Rightarrow> error + (region list \<times> int list \<times> int ndarray)" where
  "find_podocytes lib podocyte_image glomeruli_region min_sigma max_sigma dog_threshold =
     (let box = bbox glomeruli_region;
          cropping_margin = 10
      in if length box < ndim podocyte_image then Inl IndexError
         else
           (let centroid_offset = map (\<lambda>dim. box ! dim - cropping_margin) [0..<ndim podocyte_image]
            in case crop_region_of_interest podocyte_image box cropping_margin ''mean'' of
                 Inl e \<Rightarrow> Inl e
               | Inr image_roi \<Rightarrow>
                   (let blobs = blob_dog lib image_roi min_sigma max_sigma dog_threshold
                    in case marker_controlled_watershed lib image_roi blobs of
                         Inl e \<Rightarrow> Inl e
                       | Inr wshed \<Rightarrow>
                           Inr (regionprops lib wshed (Some image_roi), centroid_offset, wshed))))"


subsection \<open>\<open>main\<close> (lines 25-95)\<close>

text \<open>
  The model of \<open>main\<close> starts after the user's arguments are read: \<open>params\<close> holds the
  values of the local variables of lines 28-34. What \<open>pims.open\<close> gives for a file is a
  list of series, each with its \<open>ImageID\<close>, its \<open>ImageName\<close> and the frame \<open>images[0]\<close>
  (axes bundled as \<open>zyxc\<close>); the decoder is the parameter \<open>pims_open\<close>. Log lines are
  not modelled, except that the one of lines 72-76 reads \<open>glom.centroid[2]\<close>.
\<close>

record params =
  input_directory :: string
  channel_glomeruli :: int
  channel_podocytes :: int
  min_glom_diameter :: real
  max_glom_diameter :: real
  ext :: string

record series =
  ImageID :: string
  ImageName :: string
  image0 :: frame

text \<open>\<open>images[0][..., channel]\<close>: one index into the last axis; the metadata stay.\<close>

definition getitem_channel :: "frame \<Rightarrow> int \<Rightarrow> error + frame" where
  "getitem_channel fr channel =
     (if shape (pixels fr) = [] then Inl IndexError
      else (case axis_index (last (shape (pixels fr))) channel of
              None \<Rightarrow> Inl IndexError
            | Some c \<Rightarrow>
                Inr (fr\<lparr>pixels := \<lparr>shape = butlast (shape (pixels fr)),
                                    item = (\<lambda>idx. item (pixels fr) (idx @ [c]))\<rparr>\<rparr>)))"

text \<open>
  The loop over the glomeruli of one series (lines 64-81). \<open>continue\<close> goes to the next
  glomerulus with the table and the index as they are.
\<close>

fun glom_loop ::
    "library \<Rightarrow> real ndarray \<Rightarrow> real \<Rightarrow> region list \<Rightarrow> dataframe \<Rightarrow> int
       \<Rightarrow> error + (dataframe \<times> int)" where
  "glom_loop lib podocytes_view voxel_volume [] detailed glom_index = Inr (detailed, glom_index)"
| "glom_loop lib podocytes_view voxel_volume (glom # glom_regions) detailed glom_index =
     (case find_podocytes lib podocytes_view glom 1 4 0.17 of
        Inl e \<Rightarrow> Inl e
      | Inr (podocyte_regions, centroid_offset, wshed) \<Rightarrow>
     (case podocyte_statistics podocyte_regions centroid_offset voxel_volume of
        Inl e \<Rightarrow> Inl e
      | Inr None \<Rightarrow> glom_loop lib podocytes_view voxel_volume glom_regions detailed glom_index
      | Inr (Some df) \<Rightarrow>
          if length (centroid glom) < 3 then Inl IndexError
          else
     (case podocyte_avg_statistics df of
        Inl e \<Rightarrow> Inl e
      | Inr df1 \<Rightarrow>
     (case glom_statistics df1 glom glom_index voxel_volume of
        Inl e \<Rightarrow> Inl e
      | Inr df2 \<Rightarrow>
          glom_loop lib podocytes_view voxel_volume glom_regions
            (append_frame detailed df2) (glom_index + 1)))))"

text \<open>
  Lines 83-86 (``add image details to dataframe''): three scalar assignments to columns of
  the whole table \<open>detailed_stats\<close>. The test \<open>detailed_stats is not None\<close> always holds:
  the variable is a data frame from line 40 on.
\<close>

definition add_image_details :: "dataframe \<Rightarrow> string \<Rightarrow> string \<Rightarrow> string \<Rightarrow> dataframe" where
  "add_image_details detailed image_id image_name filename =
     setitem (setitem (setitem detailed
       ''image_series_num'' (Str image_id))
       ''image_series_name'' (Str image_name))
       ''image_filename'' (Str filename)"

text \<open>The body of the loop over the series of one file (lines 51-87).\<close>

definition series_body :: "library \<Rightarrow> params \<Rightarrow> string \<Rightarrow> series \<Rightarrow> dataframe \<Rightarrow> error + dataframe" where
  "series_body lib p filename s detailed =
     (let voxel_volume = mpp (image0 s) * mpp (image0 s) * mppZ (image0 s) in
      case getitem_channel (image0 s) (channel_glomeruli p) of
        Inl e \<Rightarrow> Inl e
      | Inr glomeruli_view \<Rightarrow>
     (case preprocess_glomeruli lib glomeruli_view of
        Inl e \<Rightarrow> Inl e
      | Inr glomeruli_labels \<Rightarrow>
     (let glom_regions = filter_by_size lib glomeruli_labels (min_glom_diameter p) (max_glom_diameter p) in
      case (if length glom_regions > 0
            then (case getitem_channel (image0 s) (channel_podocytes p) of
                    Inl e \<Rightarrow> Inl e
                  | Inr v \<Rightarrow>
                 (case denoise_image lib v of
                    Inl e \<Rightarrow> Inl e
                  | Inr podocytes_view \<Rightarrow>
                 (case glom_loop lib podocytes_view voxel_volume glom_regions detailed 0 of
                    Inl e \<Rightarrow> Inl e
                  | Inr (detailed', glom_index) \<Rightarrow> Inr detailed')))
            else Inr detailed) of
        Inl e \<Rightarrow> Inl e
      | Inr detailed' \<Rightarrow>
          Inr (add_image_details detailed' (ImageID s) (ImageName s) filename))))"

text \<open>
  The state of a run: the table \<open>detailed_stats\<close> and the content of the detailed CSV
  file, which line 87 rewrites after every series.
\<close>

record run =
  detailed_stats :: dataframe
  detailed_csv :: "dataframe option"

fun series_loop :: "library \<Rightarrow> params \<Rightarrow> string \<Rightarrow> series list \<Rightarrow> run \<Rightarrow> error + run" where
  "series_loop lib p filename [] r = Inr r"
| "series_loop lib p filename (s # ss) r =
     (case series_body lib p filename s (detailed_stats r) of
        Inl e \<Rightarrow> Inl e
      | Inr detailed \<Rightarrow>
          series_loop lib p filename ss \<lparr>detailed_stats = detailed, detailed_csv = Some detailed\<rparr>)"

fun file_loop ::
    "library \<Rightarrow> (string \<Rightarrow> error + series list) \<Rightarrow> params \<Rightarrow> string list \<Rightarrow> run \<Rightarrow> error + run" where
  "file_loop lib pims_open p [] r = Inr r"
| "file_loop lib pims_open p (filename # filelist) r =
     (case pims_open filename of
        Inl e \<Rightarrow> Inl e
      | Inr images \<Rightarrow>
     (case series_loop lib p filename images r of
        Inl e \<Rightarrow> Inl e
      | Inr r' \<Rightarrow> file_loop lib pims_open p filelist r'))"

text \<open>
  Lines 89-95: the summary is computed from the final table and written with
  \<open>summary_stats.to_csv\<close>, then \<open>len(summary_stats)\<close> is read. When
  \<open>create_summary_stats\<close> returned \<open>None\<close>, the method call is an AttributeError.
  A successful run returns its state and the summary table.
\<close>

definition main ::
    "library \<Rightarrow> (string \<Rightarrow> walk) \<Rightarrow> (string \<Rightarrow> error + series list) \<Rightarrow> params
       \<Rightarrow> error + (run \<times> dataframe)" where
  "main lib os_walk pims_open p =
     (let filelist = find_files os_walk (input_directory p) (ext p) in
      case file_loop lib pims_open p filelist \<lparr>detailed_stats = DataFrame, detailed_csv = None\<rparr> of
        Inl e \<Rightarrow> Inl e
      | Inr r \<Rightarrow>
     (case create_summary_stats (detailed_stats r) of
        Inl e \<Rightarrow> Inl e
      | Inr None \<Rightarrow> Inl AttributeError
      | Inr (Some summary_stats) \<Rightarrow> Inr (r, summary_stats)))"


subsection \<open>Tables used as concrete inputs of the summary step\<close>

text \<open>
  The columns that identify a glomerulus in the detailed table: file, series and the index
  of the glomerulus within its series.
\<close>

definition triple_columns :: "string list" where
  "triple_columns = [''image_filename'', ''image_series_num'', ''glomeruli_index'']"

text \<open>
  A row of the detailed table with all its columns; the file, the series, the index and
  the label number of the glomerulus vary. \<open>colliding_table\<close> has two rows with the same
  file, series and glomerulus index whose glomerulus label numbers differ;
  \<open>regular_table\<close> has two podocytes of glomerulus 0 and one of glomerulus 1.
\<close>

definition detailed_row :: "string \<Rightarrow> string \<Rightarrow> real \<Rightarrow> real \<Rightarrow> (string \<times> cell) list" where
  "detailed_row filename series_id glom_index glom_label =
     [(''podocyte_label_number'', Num 2),
      (''podocyte_voxel_number'', Num 100),
      (''podocyte_volume'', Num 100),
      (''podocyte_equiv_diam_pixels'', Num 6),
      (''podocyte_centroid_x'', Num 5),
      (''podocyte_centroid_y'', Num 5),
      (''podocyte_centroid_z'', Num 5),
      (''avg_podocyte_voxel_number'', Num 100),
      (''avg_podocyte_volume'', Num 100),
      (''avg_podocyte_equiv_diam_pixels'', Num 6),
      (''number_of_podocytes'', Num 1),
      (''podocyte_density'', Num (1 / 1000)),
      (''glomeruli_index'', Num glom_index),
      (''glomeruli_label_number'', Num glom_label),
      (''glomeruli_voxel_number'', Num 1000),
      (''glomeruli_volume'', Num 1000),
      (''glomeruli_equiv_diam_pixels'', Num 12),
      (''glomeruli_centroid_x'', Num 7),
      (''glomeruli_centroid_y'', Num 7),
      (''glomeruli_centroid_z'', Num 7),
      (''image_series_num'', Str series_id),
      (''image_series_name'', Str series_id),
      (''image_filename'', Str filename)]"

definition colliding_table :: dataframe where
  "colliding_table =
     append_dict (append_dict DataFrame (detailed_row ''a.lif'' ''Image:0'' 0 1))
       (detailed_row ''a.lif'' ''Image:0'' 0 3)"

definition regular_table :: dataframe where
  "regular_table =
     append_dict (append_dict (append_dict DataFrame
       (detailed_row ''a.lif'' ''Image:0'' 0 1))
       (detailed_row ''a.lif'' ''Image:0'' 0 1))
       (detailed_row ''a.lif'' ''Image:0'' 1 3)"


subsection \<open>A synthetic library and synthetic images\<close>

text \<open>
  Stand-ins for the library functions, to run the program on concrete inputs. The blur
  returns its image (after the check of scipy's filter that sigma has one entry per axis),
  the threshold is 0, the foreground voxels of the first plane get label 1 and all other
  foreground voxels label 2 (the connected components when the first plane is foreground
  and the rest of the foreground is one component away from it), \<open>regionprops\<close> reports
  one region that covers the whole label image, \<open>blob_dog\<close> finds no blob, the watershed
  returns its markers, and every directional gradient is the image itself. \<open>blind_library\<close> differs
  in one point: \<open>regionprops\<close> finds no region when it is given an intensity image, which
  is how \<open>find_podocytes\<close> (and not \<open>filter_by_size\<close>) calls it.
\<close>

definition whole_image_region :: "int ndarray \<Rightarrow> region" where
  "whole_image_region L =
     \<lparr>label = 1,
      area = int (prod_list (shape L)),
      filled_area = int (prod_list (shape L)),
      bbox = map (\<lambda>n. 0) (shape L) @ map int (shape L),
      centroid = map (\<lambda>n. (real n - 1) / 2) (shape L),
      equivalent_diameter = real (hd (shape L))\<rparr>"

definition synthetic_library :: library where
  "synthetic_library =
     \<lparr>gaussian = (\<lambda>a sigma. if length sigma = ndim a then Inr a else Inl RuntimeError),
      threshold_yen = (\<lambda>a. 0),
      measure_label = (\<lambda>b. \<lparr>shape = shape b,
                             item = (\<lambda>idx. if item b idx then (if hd idx = 0 then 1 else 2) else 0)\<rparr>),
      regionprops = (\<lambda>L intensity. [whole_image_region L]),
      blob_dog = (\<lambda>a min_sigma max_sigma threshold. []),
      watershed = (\<lambda>elevation markers. markers),
      np_gradient = (\<lambda>a. Inr (replicate (ndim a) a))\<rparr>"

definition blind_library :: library where
  "blind_library =
     synthetic_library
       \<lparr>regionprops := (\<lambda>L intensity. case intensity of None \<Rightarrow> [whole_image_region L]
                                                         | Some i \<Rightarrow> [])\<rparr>"

text \<open>An array and a frame (axes \<open>zyxc\<close>, pixel sizes 1 and 2) filled with one value.\<close>

definition constant_array :: "nat list \<Rightarrow> 'a \<Rightarrow> 'a ndarray" where
  "constant_array shp v = \<lparr>shape = shp, item = (\<lambda>idx. v)\<rparr>"

definition constant_frame :: "nat list \<Rightarrow> frame" where
  "constant_frame shp = \<lparr>pixels = constant_array shp 1, mpp = 1, mppZ = 2, axes = ''zyxc''\<rparr>"


subsection \<open>Notions used in the statements\<close>

text \<open>
  The seed image after \<open>seeds[0] = np.max(seeds) + 1\<close>: the value is 1 or 2, which the
  boolean array stores as \<open>True\<close>, so the whole first plane is marked.
\<close>

definition first_plane_marked :: "bool ndarray \<Rightarrow> bool ndarray" where
  "first_plane_marked seeds = seeds\<lparr>item := (\<lambda>idx. if hd idx = 0 then True else item seeds idx)\<rparr>"

text \<open>
  A row reports the centroid of a podocyte region translated by an offset: column x holds
  component 2, column y component 1 and column z component 0, each the local centroid
  plus the offset of that axis.
\<close>

definition translated :: "region \<Rightarrow> int list \<Rightarrow> row \<Rightarrow> bool" where
  "translated pod off r \<longleftrightarrow>
     r ''podocyte_centroid_x'' = Num (centroid pod ! 2 + real_of_int (off ! 2))
   \<and> r ''podocyte_centroid_y'' = Num (centroid pod ! 1 + real_of_int (off ! 1))
   \<and> r ''podocyte_centroid_z'' = Num (centroid pod ! 0 + real_of_int (off ! 0))"


subsection \<open>A synthetic batch without glomeruli of the wanted size\<close>

text \<open>
  One file with one series of 2 x 2 x 2 voxels and two channels; the diameter range
  starts at 30, so the size filter keeps no glomerulus.
\<close>

definition small_glomeruli_params :: params where
  "small_glomeruli_params =
     \<lparr>input_directory = ''data'', channel_glomeruli = 0, channel_podocytes = 1,
      min_glom_diameter = 30, max_glom_diameter = 300, ext = ''.lif''\<rparr>"

definition one_file :: "string \<Rightarrow> walk" where
  "one_file d = [(d, [], [''a.lif''])]"

definition one_series :: "string \<Rightarrow> error + series list" where
  "one_series filename =
     Inr [\<lparr>ImageID = ''Image:0'', ImageName = ''Series001'', image0 = constant_frame [2, 2, 2, 2]\<rparr>]"


subsection \<open>A synthetic batch of two files and three series\<close>

text \<open>
  File \<open>a.lif\<close> has two series (images of 2 x 2 x 2 and 3 x 2 x 2 voxels), file \<open>b.lif\<close>
  one (4 x 2 x 2 voxels); every image has two channels. With the synthetic library each
  series has one glomerulus, the whole image, with one podocyte, so that the voxel number
  of the glomerulus (8, 12, 16) tells which series produced a row.
\<close>

definition wide_params :: params where
  "wide_params =
     \<lparr>input_directory = ''data'', channel_glomeruli = 0, channel_podocytes = 1,
      min_glom_diameter = 1, max_glom_diameter = 300, ext = ''.lif''\<rparr>"

definition two_files :: "string \<Rightarrow> walk" where
  "two_files d = [(d, [], [''a.lif'', ''b.lif''])]"

definition three_series :: "string \<Rightarrow> error + series list" where
  "three_series filename =
     (if filename = ''data/a.lif''
      then Inr [\<lparr>ImageID = ''Image:0'', ImageName = ''Series001'', image0 = constant_frame [2, 2, 2, 2]\<rparr>,
                \<lparr>ImageID = ''Image:1'', ImageName = ''Series002'', image0 = constant_frame [3, 2, 2, 2]\<rparr>]
      else Inr [\<lparr>ImageID = ''Image:0'', ImageName = ''Series003'', image0 = constant_frame [4, 2, 2, 2]\<rparr>])"

text \<open>
  The dictionary of the one podocyte that the synthetic library yields for a glomerulus of
  \<open>n\<close> x 2 x 2 voxels (the region is the whole region of interest, \<open>n + 20\<close> x 22 x 22
  voxels, and the voxel volume is 2), and the columns of the table of one glomerulus.
\<close>

definition pod_row :: "nat \<Rightarrow> (string \<times> cell) list" where
  "pod_row n =
     [(''podocyte_label_number'', Num 1),
      (''podocyte_voxel_number'', Num (real ((n + 20) * 484))),
      (''podocyte_volume'', Num (real ((n + 20) * 484) * 2)),
      (''podocyte_equiv_diam_pixels'', Num (real (n + 20))),
      (''podocyte_centroid_x'', Num (1 / 2)),
      (''podocyte_centroid_y'', Num (1 / 2)),
      (''podocyte_centroid_z'', Num ((real n - 1) / 2))]"

definition glomerulus_columns :: "string list" where
  "glomerulus_columns =
     [''podocyte_label_number'', ''podocyte_voxel_number'', ''podocyte_volume'',
      ''podocyte_equiv_diam_pixels'', ''podocyte_centroid_x'', ''podocyte_centroid_y'',
      ''podocyte_centroid_z'', ''avg_podocyte_voxel_number'', ''avg_podocyte_volume'',
      ''avg_podocyte_equiv_diam_pixels'', ''number_of_podocytes'', ''podocyte_density'',
      ''glomeruli_index'', ''glomeruli_label_number'', ''glomeruli_voxel_number'',
      ''glomeruli_volume'', ''glomeruli_equiv_diam_pixels'', ''glomeruli_centroid_x'',
      ''glomeruli_centroid_y'', ''glomeruli_centroid_z'']"


section \<open>Properties\<close>

subsection \<open>File discovery\<close>

lemma endswith_iff_append: "endswith f sfx \<longleftrightarrow> (\<exists>p. f = p @ sfx)"
proof
  assume "endswith f sfx"
  then have "f = take (length f - length sfx) f @ sfx"
    by (metis append_take_drop_id endswith_def)
  then show "\<exists>p. f = p @ sfx" ..
next
  assume "\<exists>p. f = p @ sfx"
  then show "endswith f sfx" by (auto simp: endswith_def)
qed

lemma find_files_set:
  "set (find_files os_walk d sfx) =
     {os_path_join dirpath f | dirpath f. (dirpath, f) \<in> set (walk_files (os_walk d)) \<and> endswith f sfx}"
  unfolding find_files_def walk_files_def by force

lemma util_find_files_set:
  "set (util_find_files os_walk d sfx) =
     {os_path_join dirpath f | dirpath f.
        (dirpath, f) \<in> set (walk_files (os_walk d)) \<and> endswith f sfx \<and> \<not> startswith f ''.''}"
  unfolding util_find_files_def walk_files_def by force

text \<open>
  Claim C9. The file discovery of the pipeline should return exactly the files whose name
  ends with the extension (case-sensitive) and exclude hidden files. \<open>main\<close> calls the
  \<open>find_files\<close> of \<open>main.py\<close>, which has no hidden-file test: on a directory holding
  \<open>.hidden.lif\<close>, \<open>a.lif\<close>, \<open>b.LIF\<close> and \<open>c.tif\<close> it returns the hidden file too, where the
  \<open>find_files\<close> of \<open>util.py\<close> returns \<open>a.lif\<close> alone.
\<close>

theorem find_files_returns_hidden_file:
  "find_files (\<lambda>d. [(d, [], [''.hidden.lif'', ''a.lif'', ''b.LIF'', ''c.tif''])]) ''data'' ''.lif''
     = [''data/.hidden.lif'', ''data/a.lif'']
   \<and> util_find_files (\<lambda>d. [(d, [], [''.hidden.lif'', ''a.lif'', ''b.LIF'', ''c.tif''])]) ''data'' ''.lif''
     = [''data/a.lif'']"
  by (simp add: find_files_def util_find_files_def os_path_join_def endswith_def startswith_def)

subsection \<open>Size filter\<close>

lemma filter_by_size_iff:
  "r \<in> set (filter_by_size lib L a b) \<longleftrightarrow>
     r \<in> set (regionprops lib L None) \<and> a \<le> equivalent_diameter r \<and> equivalent_diameter r \<le> b"
  by (auto simp: filter_by_size_def)

lemma filter_by_size_widen:
  assumes "a' \<le> a" and "b \<le> b'"
  shows "filter_by_size lib L a b =
           filter (\<lambda>r. a \<le> equivalent_diameter r \<and> equivalent_diameter r \<le> b)
                  (filter_by_size lib L a' b')"
  using assms by (auto simp: filter_by_size_def intro!: filter_cong)

text \<open>
  Claim C6. \<open>filter_by_size\<close> is monotonic in its diameter range: when \<open>a' \<le> a\<close> and
  \<open>b \<le> b'\<close>, every region returned for the range \<open>[a, b]\<close> is returned for \<open>[a', b']\<close> (the
  narrower result is the wider one filtered again, so order is kept too), and a region is
  kept exactly when it is a region of the label image whose equivalent diameter \<open>d\<close> has
  \<open>a \<le> d\<close> and \<open>d \<le> b\<close>, both ends included.
\<close>

theorem filter_by_size_monotonic:
  assumes "a' \<le> a" and "b \<le> b'"
  shows "set (filter_by_size lib L a b) \<subseteq> set (filter_by_size lib L a' b')
       \<and> filter_by_size lib L a b =
           filter (\<lambda>r. a \<le> equivalent_diameter r \<and> equivalent_diameter r \<le> b)
                  (filter_by_size lib L a' b')
       \<and> (r \<in> set (filter_by_size lib L a b) \<longleftrightarrow>
            r \<in> set (regionprops lib L None) \<and> a \<le> equivalent_diameter r \<and> equivalent_diameter r \<le> b)"
proof (intro conjI)
  show "set (filter_by_size lib L a b) \<subseteq> set (filter_by_size lib L a' b')"
    using assms by (auto simp: filter_by_size_iff)
  show "filter_by_size lib L a b =
           filter (\<lambda>r. a \<le> equivalent_diameter r \<and> equivalent_diameter r \<le> b)
                  (filter_by_size lib L a' b')"
    by (rule filter_by_size_widen [OF assms])
  show "r \<in> set (filter_by_size lib L a b) \<longleftrightarrow>
            r \<in> set (regionprops lib L None) \<and> a \<le> equivalent_diameter r \<and> equivalent_diameter r \<le> b"
    by (rule filter_by_size_iff)
qed

theorem filter_by_size_monotonic_witness:
  "(1::real) \<le> 2 \<and> (2::real) \<le> 3
   \<and> set (filter_by_size synthetic_library (constant_array [2, 2, 2] 1) 2 2)
       \<subseteq> set (filter_by_size synthetic_library (constant_array [2, 2, 2] 1) 1 3)
   \<and> filter_by_size synthetic_library (constant_array [2, 2, 2] 1) 2 2
       = [whole_image_region (constant_array [2, 2, 2] 1)]
   \<and> equivalent_diameter (whole_image_region (constant_array [2, 2, 2] 1)) = 2"
  using filter_by_size_monotonic [of 1 2 2 3 synthetic_library "constant_array [2, 2, 2] 1"]
  by (simp add: filter_by_size_def synthetic_library_def whole_image_region_def constant_array_def)


subsection \<open>Summary table\<close>

lemma keep_first_keys:
  "key ` set (keep_first key seen xs) = key ` set xs - set seen"
  by (induction xs arbitrary: seen) auto

lemma keep_first_distinct:
  "distinct (map key (keep_first key seen xs))"
proof (induction xs arbitrary: seen)
  case Nil
  then show ?case by simp
next
  case (Cons x xs)
  then show ?case by (simp add: keep_first_keys)
qed

lemma keep_first_length:
  "length (keep_first key [] xs) = card (key ` set xs)"
proof -
  have "length (keep_first key [] xs) = length (map key (keep_first key [] xs))" by simp
  also have "\<dots> = card (set (map key (keep_first key [] xs)))"
    by (rule distinct_card [symmetric]) (rule keep_first_distinct)
  also have "\<dots> = card (key ` set xs)" by (simp add: keep_first_keys)
  finally show ?thesis .
qed

lemma keep_first_map:
  "keep_first key seen (map f xs) = map f (keep_first (key \<circ> f) seen xs)"
  by (induction xs arbitrary: seen) auto

lemma keep_first_subset: "set (keep_first key seen xs) \<subseteq> set xs"
  by (induction xs arbitrary: seen) auto

lemma cells_projected:
  "cells cols (\<lambda>c. if c \<in> set cols then r c else NaN) = cells cols r"
  by (simp add: cells_def)

lemma cells_projected_comp:
  "cells cols \<circ> (\<lambda>r c. if c \<in> set cols then r c else NaN) = cells cols"
  by (rule ext) (simp add: cells_projected)

lemma create_summary_stats_rows:
  assumes "len df > 0" and "set summary_columns \<subseteq> set (columns df)"
  shows "create_summary_stats df =
           Inr (Some \<lparr>columns = summary_columns,
                      rows = map (\<lambda>r c. if c \<in> set summary_columns then r c else NaN)
                               (keep_first (cells summary_columns) [] (rows df))\<rparr>)"
  using assms
  by (simp add: create_summary_stats_def getitem_columns_def drop_duplicates_def list_all_iff
      subset_iff keep_first_map cells_projected_comp)

lemma triple_of_summary:
  "cells triple_columns r = [cells summary_columns r ! 0, cells summary_columns r ! 2, cells summary_columns r ! 3]"
  by (simp add: cells_def triple_columns_def summary_columns_def)

lemma cells_summary_detailed_row:
  "cells summary_columns (row_of (detailed_row f s i l)) =
     [Str f, Str s, Str s, Num i, Num l, Num 1000, Num 1000, Num 12, Num 7, Num 7, Num 7,
      Num 1, Num 100, Num 100, Num (1 / 1000)]"
  by (simp add: cells_def summary_columns_def row_of_def detailed_row_def)

lemma cells_triple_detailed_row:
  "cells triple_columns (row_of (detailed_row f s i l)) = [Str f, Str s, Num i]"
  by (simp add: cells_def triple_columns_def row_of_def detailed_row_def)

lemma columns_detailed_row:
  "set summary_columns \<subseteq> set (map fst (detailed_row f s i l))"
  by (simp add: summary_columns_def detailed_row_def)

lemma columns_append_dict: "set (columns (append_dict df d)) = set (columns df) \<union> set (map fst d)"
  by (auto simp: append_dict_def union_columns_def)

lemma rows_append_dict: "rows (append_dict df d) = rows df @ [row_of d]"
  by (simp add: append_dict_def)

text \<open>
  Claim C2, as amended. For a detailed table with at least one row and all summary
  columns, \<open>create_summary_stats\<close> returns a table of the fifteen summary columns with
  exactly one row per distinct combination of their values occurring in the detailed
  table, in particular without duplicate rows. Its row count is at least the number of
  distinct (file, series, glomerulus index) triples, and equals that number when the
  triple determines the other summary columns in the detailed table.
\<close>

theorem summary_rows:
  assumes "len df > 0" and "set summary_columns \<subseteq> set (columns df)"
  shows "\<exists>s. create_summary_stats df = Inr (Some s)
           \<and> columns s = summary_columns
           \<and> distinct (map (cells summary_columns) (rows s))
           \<and> set (map (cells summary_columns) (rows s)) = set (map (cells summary_columns) (rows df))
           \<and> length (rows s) = card (cells summary_columns ` set (rows df))
           \<and> card (cells triple_columns ` set (rows df)) \<le> length (rows s)
           \<and> ((\<forall>r1 \<in> set (rows df). \<forall>r2 \<in> set (rows df).
                  cells triple_columns r1 = cells triple_columns r2
                  \<longrightarrow> cells summary_columns r1 = cells summary_columns r2)
                \<longrightarrow> length (rows s) = card (cells triple_columns ` set (rows df)))"
proof -
  let ?proj = "\<lambda>r c. if c \<in> set summary_columns then r c else NaN"
  let ?kept = "keep_first (cells summary_columns) [] (rows df)"
  let ?s = "\<lparr>columns = summary_columns, rows = map ?proj ?kept\<rparr>"
  let ?g = "\<lambda>cs::cell list. [cs ! 0, cs ! 2, cs ! 3]"
  have res: "create_summary_stats df = Inr (Some ?s)"
    by (rule create_summary_stats_rows [OF assms])
  have keys: "map (cells summary_columns) (rows ?s) = map (cells summary_columns) ?kept"
    by (simp add: cells_projected)
  have dist: "distinct (map (cells summary_columns) (rows ?s))"
    unfolding keys by (rule keep_first_distinct)
  have sets: "set (map (cells summary_columns) (rows ?s)) = set (map (cells summary_columns) (rows df))"
    unfolding keys by (simp add: keep_first_keys)
  have len: "length (rows ?s) = card (cells summary_columns ` set (rows df))"
    by (simp add: keep_first_length)
  have img: "cells triple_columns ` set (rows df) = ?g ` (cells summary_columns ` set (rows df))"
    by (simp add: image_image triple_of_summary)
  have le: "card (cells triple_columns ` set (rows df)) \<le> length (rows ?s)"
    unfolding img len by (rule card_image_le) simp
  have eq: "length (rows ?s) = card (cells triple_columns ` set (rows df))"
    if fd: "\<forall>r1 \<in> set (rows df). \<forall>r2 \<in> set (rows df).
                  cells triple_columns r1 = cells triple_columns r2
                  \<longrightarrow> cells summary_columns r1 = cells summary_columns r2"
  proof -
    have "inj_on ?g (cells summary_columns ` set (rows df))"
    proof (rule inj_onI)
      fix x y
      assume "x \<in> cells summary_columns ` set (rows df)" "y \<in> cells summary_columns ` set (rows df)"
        and g: "?g x = ?g y"
      then obtain r1 r2 where r: "r1 \<in> set (rows df)" "r2 \<in> set (rows df)"
        and x: "x = cells summary_columns r1" and y: "y = cells summary_columns r2"
        by auto
      from g have "cells triple_columns r1 = cells triple_columns r2"
        by (simp only: triple_of_summary x y)
      with fd r show "x = y" unfolding x y by blast
    qed
    then have "card (?g ` (cells summary_columns ` set (rows df))) = card (cells summary_columns ` set (rows df))"
      by (rule card_image)
    then show ?thesis unfolding img len by simp
  qed
  show ?thesis
    using res dist sets len le eq by (intro exI [of _ ?s]) (simp only: dataframe.simps, blast)
qed

lemma colliding_rows:
  "rows colliding_table = [row_of (detailed_row ''a.lif'' ''Image:0'' 0 1), row_of (detailed_row ''a.lif'' ''Image:0'' 0 3)]"
  by (simp add: colliding_table_def rows_append_dict DataFrame_def)

text \<open>
  The claim as stated fails: two rows that agree on file, series and glomerulus index but
  differ in the glomerulus label number are one triple and two summary rows.
\<close>

theorem summary_counterexample:
  "\<exists>s. create_summary_stats colliding_table = Inr (Some s)
       \<and> length (rows s) = 2
       \<and> card (cells triple_columns ` set (rows colliding_table)) = 1"
proof -
  have l: "len colliding_table > 0" by (simp add: len_def colliding_rows)
  have c: "set summary_columns \<subseteq> set (columns colliding_table)"
    unfolding colliding_table_def columns_append_dict by (rule le_supI2) (rule columns_detailed_row)
  have "card (cells summary_columns ` set (rows colliding_table)) = 2"
    by (simp add: colliding_rows cells_summary_detailed_row)
  moreover have "card (cells triple_columns ` set (rows colliding_table)) = 1"
    by (simp add: colliding_rows cells_triple_detailed_row)
  ultimately show ?thesis
    using create_summary_stats_rows [OF l c] by (simp add: keep_first_length)
qed

lemma regular_rows:
  "rows regular_table = [row_of (detailed_row ''a.lif'' ''Image:0'' 0 1), row_of (detailed_row ''a.lif'' ''Image:0'' 0 1),
     row_of (detailed_row ''a.lif'' ''Image:0'' 1 3)]"
  by (simp add: regular_table_def rows_append_dict DataFrame_def)

theorem summary_rows_witness:
  "\<exists>s. create_summary_stats regular_table = Inr (Some s)
       \<and> columns s = summary_columns
       \<and> length (rows s) = 2
       \<and> card (cells triple_columns ` set (rows regular_table)) = 2"
proof -
  have l: "len regular_table > 0" by (simp add: len_def regular_rows)
  have c: "set summary_columns \<subseteq> set (columns regular_table)"
    unfolding regular_table_def columns_append_dict by (rule le_supI2) (rule columns_detailed_row)
  have t: "card (cells triple_columns ` set (rows regular_table)) = 2"
    by (simp add: regular_rows cells_triple_detailed_row)
  have fd: "\<forall>r1 \<in> set (rows regular_table). \<forall>r2 \<in> set (rows regular_table).
              cells triple_columns r1 = cells triple_columns r2
              \<longrightarrow> cells summary_columns r1 = cells summary_columns r2"
    by (simp add: regular_rows cells_triple_detailed_row cells_summary_detailed_row)
  from summary_rows [OF l c] fd t show ?thesis by metis
qed

subsection \<open>Region of interest\<close>

lemma crop_axis:
  assumes "0 \<le> m" "0 \<le> lo" "lo \<le> hi" "hi \<le> int N"
  shows "slice_count N (max (lo - m) 0, min (hi + m) (int N))
       = slice_count (nat \<bar>(hi + m) - (lo - m)\<bar>)
           (\<bar>max (lo - m) 0 - (lo - m)\<bar>,
            \<bar>(hi + m) - (lo - m)\<bar> - \<bar>(hi + m) - min (hi + m) (int N)\<bar>)"
  using assms by (auto simp: slice_count_def slice_index_def max_def min_def)

lemma crop_region_of_interest_shape:
  assumes margin: "0 \<le> margin"
    and len: "length box = 2 * ndim img"
    and box: "\<And>d. d < ndim img \<Longrightarrow>
               0 \<le> box ! d \<and> box ! d \<le> box ! (ndim img + d) \<and> box ! (ndim img + d) \<le> int (shape img ! d)"
    and mode: "pad_mode = ''zeros'' \<or> pad_mode = ''mean''"
  shows "\<exists>roi. crop_region_of_interest img box margin pad_mode = Inr roi
           \<and> shape roi = map (\<lambda>d. nat (box ! (ndim img + d) - box ! d + 2 * margin)) [0..<ndim img]"
proof -
  define n where "n = ndim img"
  define bmin where "bmin = map (\<lambda>coord. coord - margin) (take n box)"
  define bmax where "bmax = map (\<lambda>coord. coord + margin) (drop n box)"
  define imin where "imin = map (\<lambda>c. max c 0) bmin"
  define imax where "imax = map2 min bmax (map int (shape img))"
  define msize where "msize = map2 (\<lambda>hi lo. \<bar>hi - lo\<bar>) bmax bmin"
  define rmin where "rmin = map2 (\<lambda>a b. \<bar>a - b\<bar>) imin bmin"
  define rmax where "rmax = map2 (-) msize (map2 (\<lambda>a b. \<bar>a - b\<bar>) bmax imax)"
  define src where "src = getitem_slices img (zip imin imax)"
  have n: "length (shape img) = n" by (simp add: n_def ndim_def)
  have lens: "length bmin = n" "length bmax = n" "length imin = n" "length imax = n"
    "length msize = n" "length rmin = n" "length rmax = n"
    using len n by (simp_all add: bmin_def bmax_def imin_def imax_def msize_def rmin_def rmax_def n_def)
  have nth: "bmin ! d = box ! d - margin" "bmax ! d = box ! (n + d) + margin" if "d < n" for d
    using that len by (simp_all add: bmin_def bmax_def n_def)
  have bx: "0 \<le> box ! d" "box ! d \<le> box ! (n + d)" "box ! (n + d) \<le> int (shape img ! d)" if "d < n" for d
    using box [of d] that by (simp_all add: n_def)
  have msize_nth: "msize ! d = box ! (n + d) - box ! d + 2 * margin" if "d < n" for d
    using that lens nth [OF that] bx [OF that] margin by (simp add: msize_def)
  have shape_dst: "map nat msize = map (\<lambda>d. nat (box ! (n + d) - box ! d + 2 * margin)) [0..<n]"
    by (rule nth_equalityI) (simp_all add: lens msize_nth)
  have compat: "list_all2 (\<lambda>s c. s = c \<or> s = 1) (shape src)
                  (slice_counts (map nat msize) (zip rmin rmax))"
  proof (rule list_all2_all_nthI)
    show "length (shape src) = length (slice_counts (map nat msize) (zip rmin rmax))"
      by (simp add: src_def getitem_slices_def slice_counts_def lens n)
  next
    fix d assume "d < length (shape src)"
    then have d: "d < n" by (simp add: src_def getitem_slices_def slice_counts_def lens n)
    have "shape src ! d = slice_count (shape img ! d) (imin ! d, imax ! d)"
      using d by (simp add: src_def getitem_slices_def slice_counts_def lens n)
    also have "\<dots> = slice_count (shape img ! d)
                        (max (box ! d - margin) 0, min (box ! (n + d) + margin) (int (shape img ! d)))"
      using d by (simp add: imin_def imax_def lens n nth)
    also have "\<dots> = slice_count (nat \<bar>(box ! (n + d) + margin) - (box ! d - margin)\<bar>)
           (\<bar>max (box ! d - margin) 0 - (box ! d - margin)\<bar>,
            \<bar>(box ! (n + d) + margin) - (box ! d - margin)\<bar>
              - \<bar>(box ! (n + d) + margin) - min (box ! (n + d) + margin) (int (shape img ! d))\<bar>)"
      by (rule crop_axis) (use margin bx [OF d] in simp_all)
    also have "\<dots> = slice_counts (map nat msize) (zip rmin rmax) ! d"
      using d by (simp add: slice_counts_def lens n msize_def rmin_def rmax_def imin_def imax_def nth)
    finally show "shape src ! d = slice_counts (map nat msize) (zip rmin rmax) ! d \<or> shape src ! d = 1"
      by simp
  qed
  have set_ok: "\<exists>roi. setitem_slices (np_full msize v) (zip rmin rmax) src = Inr roi
                  \<and> shape roi = map nat msize" for v :: real
    using compat by (simp add: setitem_slices_def np_full_def Let_def)
  have unfold: "crop_region_of_interest img box margin pad_mode =
      (if pad_mode = ''zeros'' then setitem_slices (np_full msize 0) (zip rmin rmax) src
       else setitem_slices (np_full msize (1 * np_mean (flatten src))) (zip rmin rmax) src)"
    using len mode lens(1,2)
    by (auto simp add: crop_region_of_interest_def Let_def n_def [symmetric] bmin_def [symmetric]
        bmax_def [symmetric] imin_def [symmetric] imax_def [symmetric] msize_def [symmetric]
        rmin_def [symmetric] rmax_def [symmetric] src_def [symmetric])
  show ?thesis
    unfolding unfold n_def [symmetric] shape_dst [symmetric]
    using set_ok [of 0] set_ok [of "1 * np_mean (flatten src)"] by (cases "pad_mode = ''zeros''") simp_all
qed

text \<open>
  Claim C4. For every image, every bounding box of the image (per axis
  \<open>0 \<le> min \<le> max \<le> size\<close>, as \<open>regionprops\<close> gives it), every margin \<open>\<ge> 0\<close> and both
  recognized pad modes, \<open>crop_region_of_interest\<close> returns an array, and its shape per axis
  is the extent of the bounding box plus twice the margin, however far the expanded window
  reaches over the image boundary.
\<close>

theorem crop_shape:
  assumes "0 \<le> margin"
    and "length box = 2 * ndim img"
    and "\<forall>d < ndim img. 0 \<le> box ! d \<and> box ! d \<le> box ! (ndim img + d)
                          \<and> box ! (ndim img + d) \<le> int (shape img ! d)"
    and "pad_mode = ''zeros'' \<or> pad_mode = ''mean''"
  shows "\<exists>roi. crop_region_of_interest img box margin pad_mode = Inr roi
           \<and> shape roi = map (\<lambda>d. nat (box ! (ndim img + d) - box ! d + 2 * margin)) [0..<ndim img]"
  using assms by (intro crop_region_of_interest_shape) simp_all

theorem crop_shape_witness:
  "\<exists>roi. crop_region_of_interest (constant_array [5, 5] 1) [0, 3, 2, 5] 2 ''mean'' = Inr roi
        \<and> shape roi = [6, 6]"
proof -
  let ?img = "constant_array [5, 5] (1::real)"
  let ?box = "[0, 3, 2, 5] :: int list"
  have "\<forall>d < ndim ?img. 0 \<le> ?box ! d \<and> ?box ! d \<le> ?box ! (ndim ?img + d)
          \<and> ?box ! (ndim ?img + d) \<le> int (shape ?img ! d)"
    by (simp add: ndim_def constant_array_def All_less_Suc numeral_2_eq_2)
  from crop_shape [OF _ _ this, of 2 "''mean''"] show ?thesis
    by (simp add: ndim_def constant_array_def upt_rec numeral_2_eq_2)
qed


subsection \<open>Marker-controlled watershed\<close>

lemma indices_length: "idx \<in> set (indices shp) \<Longrightarrow> length idx = length shp"
  by (induction shp arbitrary: idx) auto

lemma indices_iff:
  "idx \<in> set (indices shp) \<longleftrightarrow> length idx = length shp \<and> (\<forall>d < length shp. idx ! d < shp ! d)"
proof (induction shp arbitrary: idx)
  case Nil
  then show ?case by simp
next
  case (Cons n ns)
  show ?case
  proof (cases idx)
    case Nil
    then show ?thesis by auto
  next
    case (Cons i t)
    have "(\<forall>d < Suc (length ns). (i # t) ! d < (n # ns) ! d) \<longleftrightarrow> i < n \<and> (\<forall>d < length ns. t ! d < ns ! d)"
      by (auto simp: All_less_Suc2)
    with Cons Cons.IH [of t] show ?thesis by auto
  qed
qed

lemma origin_in_indices:
  assumes "0 \<notin> set shp"
  shows "replicate (length shp) 0 \<in> set (indices shp)"
proof -
  have "0 < shp ! d" if "d < length shp" for d
    using assms nth_mem [OF that] by (metis gr0I)
  then show ?thesis by (simp add: indices_iff)
qed

lemma blob_dog_loop_shape: "blob_dog_loop blobs m = Inr m' \<Longrightarrow> shape m' = shape m"
proof (induction blobs arbitrary: m)
  case Nil
  then show ?case by simp
next
  case (Cons blob blobs)
  then show ?case
    by (fastforce simp: ndim_def split: if_splits option.splits)
qed

lemma blob_dog_image_shape: "blob_dog_image blobs shp = Inr seeds \<Longrightarrow> shape seeds = shp"
  by (auto simp: blob_dog_image_def dest: blob_dog_loop_shape)

lemma setitem_first_Inr:
  assumes "setitem_first a v = Inr a'"
  shows "shape a \<noteq> [] \<and> hd (shape a) \<noteq> 0
       \<and> a' = a\<lparr>item := (\<lambda>idx. if hd idx = 0 then v \<noteq> 0 else item a idx)\<rparr>"
proof (cases "shape a = [] \<or> hd (shape a) = 0")
  case True
  then have "setitem_first a v = Inl IndexError"
    unfolding setitem_first_def by (rule if_P)
  with assms show ?thesis by simp
next
  case False
  then have "setitem_first a v = Inr (a\<lparr>item := (\<lambda>idx. if hd idx = 0 then v \<noteq> 0 else item a idx)\<rparr>)"
    unfolding setitem_first_def by (rule if_not_P)
  with assms False show ?thesis by (simp only: sum.inject de_Morgan_disj) blast
qed

lemma np_max_first_plane:
  assumes "setitem_first a v = Inr a'" and "v \<noteq> 0" and "0 \<notin> set (shape a)"
  shows "np_max a' = Inr True"
proof -
  from setitem_first_Inr [OF assms(1)] have ne: "shape a \<noteq> []"
    and a': "a' = a\<lparr>item := (\<lambda>idx. if hd idx = 0 then v \<noteq> 0 else item a idx)\<rparr>"
    by blast+
  have shp: "shape a' = shape a" by (simp add: a')
  have mem: "replicate (length (shape a)) 0 \<in> set (indices (shape a'))"
    unfolding shp by (rule origin_in_indices [OF assms(3)])
  have "hd (replicate (length (shape a)) (0::nat)) = 0"
    using ne by (cases "shape a") simp_all
  then have "item a' (replicate (length (shape a)) 0)"
    using assms(2) by (simp add: a')
  with mem have "list_ex (item a') (indices (shape a'))"
    unfolding list_ex_iff by (rule bexI [rotated])
  then show ?thesis using assms(3) by (simp add: np_max_def shp)
qed

lemma marker_controlled_watershed_result:
  assumes "marker_controlled_watershed lib img coords = Inr w"
  shows "\<exists>G seeds. gradient_of_image lib img = Inr G
           \<and> blob_dog_image coords (shape img) = Inr seeds
           \<and> shape img \<noteq> [] \<and> 0 \<notin> set (shape img)
           \<and> w = reset_label (watershed lib G (measure_label lib (first_plane_marked seeds))) True"
proof -
  from assms obtain G where G: "gradient_of_image lib img = Inr G"
    by (auto simp: marker_controlled_watershed_def split: sum.splits)
  from assms G obtain seeds where seeds: "blob_dog_image coords (shape img) = Inr seeds"
    by (auto simp: marker_controlled_watershed_def split: sum.splits)
  from assms G seeds obtain m where m: "np_max seeds = Inr m"
    by (auto simp: marker_controlled_watershed_def split: sum.splits)
  from assms G seeds m obtain seeds' where s': "setitem_first seeds ((if m then 1 else 0) + 1) = Inr seeds'"
    by (auto simp: marker_controlled_watershed_def split: sum.splits)
  have shp: "shape seeds = shape img" by (rule blob_dog_image_shape [OF seeds])
  from m have nz: "0 \<notin> set (shape seeds)" by (auto simp: np_max_def split: if_splits)
  from setitem_first_Inr [OF s'] have ne: "shape seeds \<noteq> []" by blast
  have v: "(if m then 1 else 0) + 1 \<noteq> (0::int)" by simp
  have m': "np_max seeds' = Inr True" by (rule np_max_first_plane [OF s' v nz])
  have "seeds' = seeds\<lparr>item := (\<lambda>idx. if hd idx = 0 then (if m then 1 else 0) + 1 \<noteq> (0::int)
                                            else item seeds idx)\<rparr>"
    using setitem_first_Inr [OF s'] by blast
  also have "(\<lambda>idx. if hd idx = 0 then (if m then 1 else 0) + 1 \<noteq> (0::int) else item seeds idx)
           = (\<lambda>idx. if hd idx = 0 then True else item seeds idx)"
    by (rule ext) simp
  finally have eq: "seeds' = first_plane_marked seeds"
    by (simp only: first_plane_marked_def)
  from assms G seeds m s' m' have "w = reset_label (watershed lib G (measure_label lib seeds')) True"
    by (simp add: marker_controlled_watershed_def Let_def)
  with G seeds nz ne shp eq show ?thesis by auto
qed

lemma reset_label_never_one: "item (reset_label a True) idx \<noteq> 1"
  by (simp add: reset_label_def)

lemma reset_label_shape: "shape (reset_label a m) = shape a"
  by (simp add: reset_label_def)

lemma reset_label_values: "item (reset_label a True) idx = 0 \<or> item (reset_label a True) idx = item a idx"
  by (simp add: reset_label_def)

lemma np_max_blank:
  "0 \<notin> set shp \<Longrightarrow> np_max \<lparr>shape = shp, item = (\<lambda>idx. False)\<rparr> = Inr False"
  by (simp add: np_max_def list_ex_iff)

lemma marker_controlled_watershed_eval:
  assumes G: "gradient_of_image lib img = Inr G"
    and seeds: "blob_dog_image coords (shape img) = Inr seeds"
    and ne: "shape img \<noteq> []" and nz: "0 \<notin> set (shape img)"
  shows "marker_controlled_watershed lib img coords =
           Inr (reset_label (watershed lib G (measure_label lib (first_plane_marked seeds))) True)"
proof -
  have shp: "shape seeds = shape img" by (rule blob_dog_image_shape [OF seeds])
  define m where "m = list_ex (item seeds) (indices (shape seeds))"
  have m: "np_max seeds = Inr m" using nz by (simp add: np_max_def shp m_def)
  have hd: "hd (shape img) \<noteq> 0" using ne nz by (cases "shape img") auto
  have s': "setitem_first seeds ((if m then 1 else 0) + 1) = Inr (first_plane_marked seeds)"
    using ne hd by (simp add: setitem_first_def first_plane_marked_def shp)
  have m': "np_max (first_plane_marked seeds) = Inr True"
    by (rule np_max_first_plane [OF s']) (use nz shp in simp_all)
  show ?thesis
    by (simp only: marker_controlled_watershed_def G seeds m s' m' sum.case Let_def)
qed

lemma marker_controlled_watershed_no_blobs:
  assumes g: "np_gradient lib img = Inr grad" and grad: "grad \<noteq> []"
    and ne: "shape img \<noteq> []" and nz: "0 \<notin> set (shape img)"
  shows "\<exists>G. marker_controlled_watershed lib img [] =
           Inr (reset_label (watershed lib G
                  (measure_label lib (first_plane_marked \<lparr>shape = shape img, item = (\<lambda>idx. False)\<rparr>))) True)"
proof -
  have "\<exists>G. gradient_of_image lib img = Inr G"
    using grad by (cases grad) (auto simp: gradient_of_image_def g)
  then obtain G where G: "gradient_of_image lib img = Inr G" ..
  have seeds: "blob_dog_image [] (shape img) = Inr \<lparr>shape = shape img, item = (\<lambda>idx. False)\<rparr>"
    by (simp add: blob_dog_image_def)
  from marker_controlled_watershed_eval [OF G seeds ne nz] show ?thesis ..
qed

text \<open>
  Claim C5. When \<open>marker_controlled_watershed\<close> returns a label image, that image has the
  shape of the input image, the background marker (the first plane of the seed image) has
  id 1, no element of the result is 1, and every element is 0 or the id that the labelling
  gave to a marker of the seed image. The library functions enter by their contracts:
  \<open>watershed\<close> and \<open>label\<close> keep the shape of their argument, every value of the watershed
  result is a value of its marker image, and \<open>label\<close> numbers the component of the first
  voxel 1 (labels are given in raster-scan order).
\<close>

theorem watershed_labels:
  assumes run: "marker_controlled_watershed lib img coords = Inr w"
    and watershed_shape: "\<forall>G markers. shape (watershed lib G markers) = shape markers"
    and label_shape: "\<forall>b. shape (measure_label lib b) = shape b"
    and watershed_values: "\<forall>G markers. \<forall>idx \<in> set (indices (shape markers)).
           \<exists>idx' \<in> set (indices (shape markers)). item (watershed lib G markers) idx = item markers idx'"
    and label_first: "\<forall>b. shape b \<noteq> [] \<and> 0 \<notin> set (shape b) \<and> item b (replicate (ndim b) 0)
           \<longrightarrow> item (measure_label lib b) (replicate (ndim b) 0) = 1"
  shows "\<exists>seeds. blob_dog_image coords (shape img) = Inr seeds
           \<and> shape w = shape img
           \<and> item (measure_label lib (first_plane_marked seeds)) (replicate (ndim img) 0) = 1
           \<and> (\<forall>idx. item w idx \<noteq> 1)
           \<and> (\<forall>idx \<in> set (indices (shape w)).
                 item w idx = 0
                 \<or> (\<exists>idx' \<in> set (indices (shape img)).
                       item w idx = item (measure_label lib (first_plane_marked seeds)) idx'))"
proof -
  from marker_controlled_watershed_result [OF run] obtain G seeds where
    G: "gradient_of_image lib img = Inr G" and
    seeds: "blob_dog_image coords (shape img) = Inr seeds" and
    ne: "shape img \<noteq> []" and nz: "0 \<notin> set (shape img)" and
    w: "w = reset_label (watershed lib G (measure_label lib (first_plane_marked seeds))) True"
    by blast
  let ?markers = "measure_label lib (first_plane_marked seeds)"
  have shp_seeds: "shape (first_plane_marked seeds) = shape img"
    using blob_dog_image_shape [OF seeds] by (simp add: first_plane_marked_def)
  have shp_markers: "shape ?markers = shape img"
    using label_shape shp_seeds by simp
  have shp_w: "shape w = shape img"
    using watershed_shape shp_markers by (simp add: w reset_label_shape)
  have origin: "item (first_plane_marked seeds) (replicate (ndim (first_plane_marked seeds)) 0)"
    using ne shp_seeds by (cases "shape img") (simp_all add: first_plane_marked_def ndim_def)
  have bg: "item ?markers (replicate (ndim img) 0) = 1"
    using label_first origin nz ne shp_seeds by (metis ndim_def)
  have vals: "item w idx = 0 \<or> (\<exists>idx' \<in> set (indices (shape img)). item w idx = item ?markers idx')"
    if "idx \<in> set (indices (shape w))" for idx
  proof -
    from that have "idx \<in> set (indices (shape ?markers))" by (simp add: shp_w shp_markers)
    with watershed_values obtain idx' where "idx' \<in> set (indices (shape ?markers))"
      and "item (watershed lib G ?markers) idx = item ?markers idx'" by blast
    then show ?thesis
      using reset_label_values [of "watershed lib G ?markers" idx] by (auto simp: w shp_markers)
  qed
  show ?thesis
    using seeds shp_w bg vals by (intro exI [of _ seeds]) (simp add: w reset_label_never_one)
qed

lemma synthetic_contracts:
  "\<forall>G markers. shape (watershed synthetic_library G markers) = shape markers"
  "\<forall>b. shape (measure_label synthetic_library b) = shape b"
  "\<forall>G markers. \<forall>idx \<in> set (indices (shape markers)).
           \<exists>idx' \<in> set (indices (shape markers)). item (watershed synthetic_library G markers) idx = item markers idx'"
  "\<forall>b. shape b \<noteq> [] \<and> 0 \<notin> set (shape b) \<and> item b (replicate (ndim b) 0)
           \<longrightarrow> item (measure_label synthetic_library b) (replicate (ndim b) 0) = 1"
proof -
  show "\<forall>b. shape b \<noteq> [] \<and> 0 \<notin> set (shape b) \<and> item b (replicate (ndim b) 0)
           \<longrightarrow> item (measure_label synthetic_library b) (replicate (ndim b) 0) = 1"
  proof (intro allI impI)
    fix b :: "bool ndarray"
    assume a: "shape b \<noteq> [] \<and> 0 \<notin> set (shape b) \<and> item b (replicate (ndim b) 0)"
    then have "hd (replicate (ndim b) (0::nat)) = 0" by (cases "shape b") (simp_all add: ndim_def)
    with a show "item (measure_label synthetic_library b) (replicate (ndim b) 0) = 1"
      by (simp add: synthetic_library_def)
  qed
qed (auto simp: synthetic_library_def)

theorem watershed_labels_witness:
  "\<exists>w. marker_controlled_watershed synthetic_library (constant_array [3, 1, 1] 5) [[2, 0, 0, 1]] = Inr w
      \<and> shape w = [3, 1, 1]
      \<and> (\<forall>idx. item w idx \<noteq> 1)
      \<and> map (item w) (indices [3, 1, 1]) = [0, 0, 2]"
proof -
  let ?img = "constant_array [3, 1, 1] (5::real)"
  have "\<exists>G. gradient_of_image synthetic_library ?img = Inr G"
    by (simp add: gradient_of_image_def synthetic_library_def ndim_def constant_array_def
        numeral_3_eq_3)
  then obtain G where G: "gradient_of_image synthetic_library ?img = Inr G" ..
  define seeds :: "bool ndarray" where
    "seeds = \<lparr>shape = [3, 1, 1], item = (\<lambda>idx. if take 3 idx = [2, 0, 0] then True else False)\<rparr>"
  have seeds: "blob_dog_image [[2, 0, 0, 1]] (shape ?img) = Inr seeds"
    by (simp add: blob_dog_image_def constant_array_def ndim_def axis_index_def py_int_def seeds_def)
  define w where "w = reset_label (watershed synthetic_library G
                        (measure_label synthetic_library (first_plane_marked seeds))) True"
  have run: "marker_controlled_watershed synthetic_library ?img [[2, 0, 0, 1]] = Inr w"
    unfolding w_def by (rule marker_controlled_watershed_eval [OF G seeds]) (simp_all add: constant_array_def)
  have vals: "map (item w) (indices [3, 1, 1]) = [0, 0, 2]"
    by (simp add: w_def reset_label_def synthetic_library_def first_plane_marked_def seeds_def upt_rec)
  from watershed_labels [OF run synthetic_contracts] have
    "shape w = shape ?img" "\<forall>idx. item w idx \<noteq> 1" by blast+
  with run vals show ?thesis by (auto simp: constant_array_def)
qed


subsection \<open>Podocyte statistics\<close>

lemma podocyte_step:
  assumes "real_podocyte_centroid (centroid pod) off = Inr c" and "contents pod c vv = Inr d"
  shows "translated pod off (row_of d)"
proof -
  from assms(1) have c: "c = map (\<lambda>dim. centroid pod ! dim + real_of_int (off ! dim)) [0..<length (centroid pod)]"
    by (auto simp: real_podocyte_centroid_def split: if_splits)
  from assms(2) have three: "3 \<le> length c" and d: "d = [(''podocyte_label_number'', Num (real_of_int (label pod))),
                (''podocyte_voxel_number'', Num (real_of_int (area pod))),
                (''podocyte_volume'', Num (real_of_int (area pod) * vv)),
                (''podocyte_equiv_diam_pixels'', Num (equivalent_diameter pod)),
                (''podocyte_centroid_x'', Num (c ! 2)),
                (''podocyte_centroid_y'', Num (c ! 1)),
                (''podocyte_centroid_z'', Num (c ! 0))]"
    by (auto simp: contents_def split: if_splits)
  have nth: "c ! k = centroid pod ! k + real_of_int (off ! k)" if "k < length (centroid pod)" for k
    using that by (simp add: c)
  from three have l: "3 \<le> length (centroid pod)" by (simp add: c)
  have "c ! 2 = centroid pod ! 2 + real_of_int (off ! 2)"
    "c ! 1 = centroid pod ! 1 + real_of_int (off ! 1)"
    "c ! 0 = centroid pod ! 0 + real_of_int (off ! 0)"
    using l by (auto intro: nth)
  then show ?thesis by (simp add: translated_def row_of_def d)
qed

lemma podocyte_loop_rows:
  assumes "podocyte_loop df regions off vv = Inr df'"
  shows "\<exists>new. rows df' = rows df @ new \<and> length new = length regions
           \<and> (\<forall>i < length regions. translated (regions ! i) off (new ! i))"
  using assms
proof (induction regions arbitrary: df)
  case Nil
  then show ?case by simp
next
  case (Cons pod regions)
  from Cons.prems obtain c d where c: "real_podocyte_centroid (centroid pod) off = Inr c"
    and d: "contents pod c vv = Inr d"
    and rest: "podocyte_loop (append_dict df d) regions off vv = Inr df'"
    by (auto split: sum.splits)
  from Cons.IH [OF rest] obtain new where new: "rows df' = rows (append_dict df d) @ new"
    "length new = length regions" "\<forall>i < length regions. translated (regions ! i) off (new ! i)"
    by blast
  have "rows df' = rows df @ (row_of d # new)"
    by (simp add: new(1) append_dict_def)
  moreover have "length (row_of d # new) = length (pod # regions)"
    by (simp add: new(2))
  moreover have "translated ((pod # regions) ! i) off ((row_of d # new) ! i)" if "i < length (pod # regions)" for i
    using that new(3) podocyte_step [OF c d] by (cases i) simp_all
  ultimately show ?case by blast
qed

lemma podocyte_statistics_rows:
  assumes "podocyte_statistics regions off vv = Inr (Some df)"
  shows "length (rows df) = length regions
       \<and> (\<forall>i < length regions. translated (regions ! i) off (rows df ! i))"
proof -
  from assms have "podocyte_loop DataFrame regions off vv = Inr df"
    by (auto simp: podocyte_statistics_def split: sum.splits if_splits)
  from podocyte_loop_rows [OF this] show ?thesis
    by (auto simp: DataFrame_def)
qed

lemma find_podocytes_offset:
  assumes "find_podocytes lib img glom s1 s2 t = Inr (regions, off, w)"
  shows "off = map (\<lambda>dim. bbox glom ! dim - 10) [0..<ndim img]"
  using assms
  by (auto simp: find_podocytes_def Let_def split: if_splits sum.splits)

lemma podocyte_statistics_empty: "podocyte_statistics [] off vv = Inr None"
  by (simp add: podocyte_statistics_def DataFrame_def len_def)

lemma whole_image_region_bbox:
  "length (bbox (whole_image_region L)) = 2 * length (shape L)"
  "d < length (shape L) \<Longrightarrow> bbox (whole_image_region L) ! d = 0"
  "d < length (shape L) \<Longrightarrow> bbox (whole_image_region L) ! (length (shape L) + d) = int (shape L ! d)"
  by (simp_all add: whole_image_region_def nth_append)

lemma find_podocytes_whole_image:
  assumes blob: "\<And>a. blob_dog lib a s1 s2 t = []"
    and grad: "\<And>a. shape a \<noteq> [] \<Longrightarrow> \<exists>g. np_gradient lib a = Inr g \<and> g \<noteq> []"
    and ws: "\<And>G m. watershed lib G m = m"
    and lab: "\<And>b. shape (measure_label lib b) = shape b"
    and shp: "shape L = shape img" and ne: "shape img \<noteq> []"
  shows "\<exists>roi w. shape roi = map (\<lambda>n. n + 20) (shape img) \<and> shape w = shape roi
           \<and> find_podocytes lib img (whole_image_region L) s1 s2 t
              = Inr (regionprops lib w (Some roi), map (\<lambda>n. - 10) (shape img), w)"
proof -
  let ?box = "bbox (whole_image_region L)"
  have n: "length (shape L) = ndim img" by (simp add: shp ndim_def)
  have b1: "length ?box = 2 * ndim img"
    using whole_image_region_bbox(1) [of L] by (simp add: shp ndim_def)
  have b2: "?box ! d = 0" if "d < ndim img" for d
    using whole_image_region_bbox(2) [of d L] that by (simp add: shp ndim_def)
  have b3: "?box ! (ndim img + d) = int (shape img ! d)" if "d < ndim img" for d
    using whole_image_region_bbox(3) [of d L] that by (simp add: shp ndim_def)
  have "\<exists>roi. crop_region_of_interest img ?box 10 ''mean'' = Inr roi
           \<and> shape roi = map (\<lambda>d. nat (?box ! (ndim img + d) - ?box ! d + 2 * 10)) [0..<ndim img]"
    by (rule crop_region_of_interest_shape) (simp_all add: b1 b2 b3)
  then obtain roi where roi: "crop_region_of_interest img ?box 10 ''mean'' = Inr roi"
    and sroi: "shape roi = map (\<lambda>d. nat (?box ! (ndim img + d) - ?box ! d + 2 * 10)) [0..<ndim img]"
    by blast
  have sroi': "shape roi = map (\<lambda>n. n + 20) (shape img)"
    unfolding sroi by (rule nth_equalityI) (simp_all add: b2 b3 nat_add_distrib, simp_all add: ndim_def)
  have ne_roi: "shape roi \<noteq> []" and nz_roi: "0 \<notin> set (shape roi)"
    using ne by (auto simp: sroi')
  obtain g where g: "np_gradient lib roi = Inr g" and g_ne: "g \<noteq> []"
    using grad [OF ne_roi] by blast
  from marker_controlled_watershed_no_blobs [OF g g_ne ne_roi nz_roi] obtain w where
    w: "marker_controlled_watershed lib roi [] = Inr w" and sw: "shape w = shape roi"
    by (auto simp: ws lab reset_label_shape first_plane_marked_def)
  have off: "map (\<lambda>dim. ?box ! dim - 10) [0..<ndim img] = map (\<lambda>n. - 10) (shape img)"
    by (rule nth_equalityI) (simp_all add: b2, simp_all add: ndim_def)
  have "find_podocytes lib img (whole_image_region L) s1 s2 t
          = Inr (regionprops lib w (Some roi), map (\<lambda>n. - 10) (shape img), w)"
    by (simp add: find_podocytes_def Let_def roi blob w off b1)
  with sroi' sw show ?thesis by blast
qed

lemma synthetic_library_simps:
  "blob_dog synthetic_library a s1 s2 t = []"
  "np_gradient synthetic_library b = Inr (replicate (ndim b) b)"
  "watershed synthetic_library G m = m"
  "shape (measure_label synthetic_library c) = shape c"
  "regionprops synthetic_library L i = [whole_image_region L]"
  "threshold_yen synthetic_library b = 0"
  "gaussian synthetic_library b sigma = (if length sigma = ndim b then Inr b else Inl RuntimeError)"
  by (simp_all add: synthetic_library_def)

lemma blind_library_simps:
  "blob_dog blind_library a s1 s2 t = []"
  "np_gradient blind_library b = Inr (replicate (ndim b) b)"
  "watershed blind_library G m = m"
  "shape (measure_label blind_library c) = shape c"
  "regionprops blind_library L None = [whole_image_region L]"
  "regionprops blind_library L (Some i) = []"
  "threshold_yen blind_library b = 0"
  "gaussian blind_library b sigma = (if length sigma = ndim b then Inr b else Inl RuntimeError)"
  by (simp_all add: blind_library_def synthetic_library_def)

lemma whole_image_region_shape: "shape a = shape b \<Longrightarrow> whole_image_region a = whole_image_region b"
  by (simp add: whole_image_region_def)

lemma find_podocytes_synthetic:
  assumes "shape L = shape img" and "shape img \<noteq> []"
  shows "\<exists>roi w. shape w = map (\<lambda>n. n + 20) (shape img)
           \<and> find_podocytes synthetic_library img (whole_image_region L) s1 s2 t
              = Inr ([whole_image_region w], map (\<lambda>n. - 10) (shape img), w)"
  using find_podocytes_whole_image [of synthetic_library s1 s2 t L img, OF _ _ _ _ assms]
  by (auto simp: synthetic_library_simps ndim_def)

lemma find_podocytes_blind:
  assumes "shape L = shape img" and "shape img \<noteq> []"
  shows "\<exists>w. find_podocytes blind_library img (whole_image_region L) s1 s2 t
              = Inr ([], map (\<lambda>n. - 10) (shape img), w)"
  using find_podocytes_whole_image [of blind_library s1 s2 t L img, OF _ _ _ _ assms]
  by (auto simp: blind_library_simps ndim_def)

text \<open>
  Claim C3. For a glomerulus processed by \<open>find_podocytes\<close>, the offset is the minimum
  corner of the bounding box minus the cropping margin 10 on every axis, and when
  \<open>podocyte_statistics\<close> returns a table for the regions and this offset, the table has one
  row per region, in order, whose columns \<open>podocyte_centroid_x/y/z\<close> are the components 2,
  1, 0 of the region's local centroid plus the same components of that one offset.
\<close>

theorem global_centroid:
  assumes "find_podocytes lib img glom min_sigma max_sigma dog_threshold = Inr (regions, off, w)"
    and "podocyte_statistics regions off vv = Inr (Some df)"
  shows "off = map (\<lambda>dim. bbox glom ! dim - 10) [0..<ndim img]
       \<and> length (rows df) = length regions
       \<and> (\<forall>i < length regions.
            (rows df ! i) ''podocyte_centroid_x'' = Num (centroid (regions ! i) ! 2 + real_of_int (off ! 2))
          \<and> (rows df ! i) ''podocyte_centroid_y'' = Num (centroid (regions ! i) ! 1 + real_of_int (off ! 1))
          \<and> (rows df ! i) ''podocyte_centroid_z'' = Num (centroid (regions ! i) ! 0 + real_of_int (off ! 0)))"
  using find_podocytes_offset [OF assms(1)] podocyte_statistics_rows [OF assms(2)]
  by (simp add: translated_def)

theorem global_centroid_witness:
  "\<exists>regions off w df.
      find_podocytes synthetic_library (constant_array [2, 2, 2] 1)
        (whole_image_region (constant_array [2, 2, 2] 1)) 1 4 0.17 = Inr (regions, off, w)
    \<and> podocyte_statistics regions off 2 = Inr (Some df)
    \<and> off = [- 10, - 10, - 10]
    \<and> centroid (regions ! 0) = [21 / 2, 21 / 2, 21 / 2]
    \<and> (rows df ! 0) ''podocyte_centroid_x'' = Num (1 / 2)
    \<and> (rows df ! 0) ''podocyte_centroid_y'' = Num (1 / 2)
    \<and> (rows df ! 0) ''podocyte_centroid_z'' = Num (1 / 2)"
proof -
  obtain w where w: "shape w = [22, 22, 22]"
    and fp: "find_podocytes synthetic_library (constant_array [2, 2, 2] 1)
              (whole_image_region (constant_array [2, 2, 2] 1)) 1 4 0.17
             = Inr ([whole_image_region w], [- 10, - 10, - 10], w)"
    using find_podocytes_synthetic [of "constant_array [2, 2, 2] (1::int)" "constant_array [2, 2, 2] (1::real)" 1 4 "0.17"]
    by (auto simp: constant_array_def)
  have c: "centroid (whole_image_region w) = [21 / 2, 21 / 2, 21 / 2]"
    by (simp add: whole_image_region_def w)
  obtain df where ps: "podocyte_statistics [whole_image_region w] [- 10, - 10, - 10] 2 = Inr (Some df)"
    by (simp add: podocyte_statistics_def real_podocyte_centroid_def contents_def c len_def append_dict_def DataFrame_def)
  from global_centroid [OF fp ps] c show ?thesis
    using fp ps by (intro exI [of _ "[whole_image_region w]"] exI [of _ "[- 10, - 10, - 10]"] exI [of _ w] exI [of _ df]) simp
qed

text \<open>
  The step of the loop for a glomerulus without podocyte regions: \<open>podocyte_statistics\<close>
  returns \<open>None\<close> and no error, and \<open>continue\<close> leaves the table and the glomerulus index
  as they are, so the loop does what it does on the remaining glomeruli.
\<close>

lemma no_podocytes_skipped:
  assumes "find_podocytes lib podocytes_view glom 1 4 0.17 = Inr ([], centroid_offset, wshed)"
  shows "podocyte_statistics [] centroid_offset voxel_volume = Inr None
       \<and> glom_loop lib podocytes_view voxel_volume (glom # glom_regions) detailed glom_index
           = glom_loop lib podocytes_view voxel_volume glom_regions detailed glom_index"
  using assms by (simp add: podocyte_statistics_empty)

lemma glom_loop_blind:
  assumes "shape L = shape V" and "shape V \<noteq> []"
  shows "glom_loop blind_library V vv [whole_image_region L] detailed i = Inr (detailed, i)"
proof -
  from find_podocytes_blind [OF assms, of 1 4 "0.17"] obtain w where
    fp: "find_podocytes blind_library V (whole_image_region L) 1 4 0.17
           = Inr ([], map (\<lambda>n. - 10) (shape V), w)"
    by blast
  from no_podocytes_skipped [OF fp, of vv "[]" detailed i] show ?thesis by simp
qed


subsection \<open>Denoising\<close>

lemma np_divide_voxel_dimensions:
  "np_divide x (voxel_dimensions xy z labels) =
     map (\<lambda>i. if i = CHR ''z'' then x / z else x / xy)
         (filter (\<lambda>i. i = CHR ''x'' \<or> i = CHR ''y'' \<or> i = CHR ''z'') labels)"
  by (induction labels) (simp_all add: np_divide_def)

text \<open>
  Claim C7, as amended. \<open>denoise_image\<close> does not reject an axis label outside
  \<open>{x, y, z}\<close>: it skips it. The sigma it hands to the Gaussian filter has one entry per
  label \<open>x\<close>, \<open>y\<close> or \<open>z\<close> of the axis descriptor, in order (xy pixel size divided by
  itself for \<open>x\<close> and \<open>y\<close>, by the z pixel size for \<open>z\<close>), and the result of
  \<open>denoise_image\<close> is whatever the filter returns for the image and this sigma.
\<close>

theorem denoise_image_sigma:
  "denoise_image lib img =
     gaussian lib (pixels img)
       (map (\<lambda>i. if i = CHR ''z'' then mpp img / mppZ img else mpp img / mpp img)
            (filter (\<lambda>i. i = CHR ''x'' \<or> i = CHR ''y'' \<or> i = CHR ''z'') (axes img)))"
  by (simp only: denoise_image_def Let_def np_divide_voxel_dimensions)

text \<open>
  The claim as stated fails: for a three-axis channel view whose descriptor is \<open>zyxc\<close> (the
  metadata \<open>main\<close> passes on), the label \<open>c\<close> is skipped and the image comes back denoised.
\<close>

theorem denoise_image_unknown_axis:
  "CHR ''c'' \<in> set (axes (constant_frame [2, 2, 2]))
   \<and> CHR ''c'' \<notin> {CHR ''x'', CHR ''y'', CHR ''z''}
   \<and> denoise_image synthetic_library (constant_frame [2, 2, 2]) = Inr (pixels (constant_frame [2, 2, 2]))"
  by (simp add: denoise_image_def np_divide_def constant_frame_def constant_array_def
      synthetic_library_def ndim_def)


subsection \<open>The summary of an empty table\<close>

lemma create_summary_stats_None: "(create_summary_stats df = Inr None) = (len df = 0)"
  by (auto simp: create_summary_stats_def split: sum.splits)

text \<open>
  Claim C10. \<open>create_summary_stats\<close> returns \<open>None\<close> exactly when the detailed table has no
  row (for a table with rows it returns a table or a KeyError, never \<open>None\<close>), so a caller
  has to treat the missing summary as a case of its own: \<open>main\<close> does not, and a run whose
  detailed table ends without rows stops with an AttributeError at \<open>summary_stats.to_csv\<close>.
\<close>

theorem summary_of_empty_table:
  "(create_summary_stats df = Inr None \<longleftrightarrow> len df = 0)
   \<and> (file_loop lib pims_open p (find_files os_walk (input_directory p) (ext p))
         \<lparr>detailed_stats = DataFrame, detailed_csv = None\<rparr> = Inr r
       \<and> len (detailed_stats r) = 0
       \<longrightarrow> main lib os_walk pims_open p = Inl AttributeError)"
  by (simp add: create_summary_stats_None main_def) (simp add: create_summary_stats_def)

lemma series_body_small:
  "series_body synthetic_library small_glomeruli_params f
     \<lparr>ImageID = i, ImageName = n, image0 = constant_frame [2, 2, 2, 2]\<rparr> detailed
   = Inr (add_image_details detailed i n f)"
  by (simp add: series_body_def getitem_channel_def constant_frame_def constant_array_def
      axis_index_def preprocess_glomeruli_def denoise_image_def np_divide_def
      synthetic_library_def ndim_def filter_by_size_def whole_image_region_def greater_than_def
      small_glomeruli_params_def)

theorem summary_of_empty_table_witness:
  "main synthetic_library one_file one_series small_glomeruli_params = Inl AttributeError
   \<and> (\<exists>r. file_loop synthetic_library one_series small_glomeruli_params [''data/a.lif'']
             \<lparr>detailed_stats = DataFrame, detailed_csv = None\<rparr> = Inr r
          \<and> len (detailed_stats r) = 0
          \<and> columns (detailed_stats r) = [''image_series_num'', ''image_series_name'', ''image_filename''])"
proof -
  have files: "find_files one_file (input_directory small_glomeruli_params) (ext small_glomeruli_params)
                 = [''data/a.lif'']"
    by (simp add: find_files_def one_file_def small_glomeruli_params_def os_path_join_def
        endswith_def startswith_def)
  define r where "r = \<lparr>detailed_stats = add_image_details DataFrame ''Image:0'' ''Series001'' ''data/a.lif'',
                        detailed_csv = Some (add_image_details DataFrame ''Image:0'' ''Series001'' ''data/a.lif'')\<rparr>"
  have loop: "file_loop synthetic_library one_series small_glomeruli_params [''data/a.lif'']
             \<lparr>detailed_stats = DataFrame, detailed_csv = None\<rparr> = Inr r"
    by (simp add: one_series_def series_body_small r_def)
  have empty: "len (detailed_stats r) = 0"
    by (simp add: r_def add_image_details_def setitem_def DataFrame_def len_def)
  have cols: "columns (detailed_stats r) = [''image_series_num'', ''image_series_name'', ''image_filename'']"
    by (simp add: r_def add_image_details_def setitem_def DataFrame_def)
  from summary_of_empty_table [of "detailed_stats r" synthetic_library one_series small_glomeruli_params one_file r]
  have "main synthetic_library one_file one_series small_glomeruli_params = Inl AttributeError"
    using loop empty by (simp add: files)
  with loop empty cols show ?thesis by blast
qed

subsection \<open>The batch loop\<close>

lemma podocyte_statistics_synthetic:
  assumes "shape w = [n + 20, 22, 22]"
  shows "podocyte_statistics [whole_image_region w] [- 10, - 10, - 10] 2
           = Inr (Some (append_dict DataFrame (pod_row n)))"
proof -
  have c: "real_podocyte_centroid (centroid (whole_image_region w)) [- 10, - 10, - 10]
             = Inr [(real n - 1) / 2, 1 / 2, 1 / 2]"
    by (simp add: real_podocyte_centroid_def whole_image_region_def assms upt_rec numeral_3_eq_3 field_simps)
  have d: "contents (whole_image_region w) [(real n - 1) / 2, 1 / 2, 1 / 2] 2 = Inr (pod_row n)"
    by (simp add: contents_def whole_image_region_def assms pod_row_def numeral_2_eq_2 algebra_simps)
  show ?thesis
    by (simp add: podocyte_statistics_def c d len_def append_dict_def)
qed


lemma rows_setitem: "rows (setitem df c v) = map (\<lambda>r. r(c := v)) (rows df)"
  by (simp add: setitem_def)

lemma len_setitem: "len (setitem df c v) = len df"
  by (simp add: setitem_def len_def)

lemma columns_setitem: "set (columns (setitem df c v)) = insert c (set (columns df))"
  by (auto simp: setitem_def)

lemma rows_append_frame: "rows (append_frame a b) = rows a @ rows b"
  by (simp add: append_frame_def)

lemma columns_append_frame: "set (columns (append_frame a b)) = set (columns a) \<union> set (columns b)"
  by (auto simp: append_frame_def union_columns_def)

lemma podocyte_avg_statistics_synthetic:
  "\<exists>r. podocyte_avg_statistics (append_dict DataFrame (pod_row n))
         = Inr \<lparr>columns = take 10 glomerulus_columns, rows = [r]\<rparr>"
  by (simp add: podocyte_avg_statistics_def mean_of_column_def getitem_def setitem_def
      append_dict_def union_columns_def DataFrame_def row_of_def pod_row_def np_mean_def
      glomerulus_columns_def Let_def)

lemma glom_statistics_Inr:
  assumes "3 \<le> length (centroid glom)"
  shows "glom_statistics df glom i vv =
     Inr (setitem (setitem (setitem (setitem (setitem (setitem (setitem (setitem (setitem (setitem df
       ''number_of_podocytes'' (Num (real (len df))))
       ''podocyte_density'' (Num (real (len df) / (real_of_int (filled_area glom) * vv))))
       ''glomeruli_index'' (Num (real_of_int i)))
       ''glomeruli_label_number'' (Num (real_of_int (label glom))))
       ''glomeruli_voxel_number'' (Num (real_of_int (filled_area glom))))
       ''glomeruli_volume'' (Num (real_of_int (filled_area glom) * vv)))
       ''glomeruli_equiv_diam_pixels'' (Num (equivalent_diameter glom)))
       ''glomeruli_centroid_x'' (Num (centroid glom ! 2)))
       ''glomeruli_centroid_y'' (Num (centroid glom ! 1)))
       ''glomeruli_centroid_z'' (Num (centroid glom ! 0)))"
  using assms by (simp add: glom_statistics_def Let_def len_setitem)

lemma glom_statistics_rows:
  assumes "3 \<le> length (centroid glom)"
  shows "\<exists>df'. glom_statistics df glom i vv = Inr df'
           \<and> length (rows df') = length (rows df)
           \<and> set (drop 10 glomerulus_columns) \<subseteq> set (columns df')
           \<and> set (columns df) \<subseteq> set (columns df')
           \<and> (\<forall>r \<in> set (rows df').
                 r ''glomeruli_voxel_number'' = Num (real_of_int (filled_area glom))
               \<and> r ''glomeruli_index'' = Num (real_of_int i))"
proof -
  let ?res = "(setitem (setitem (setitem (setitem (setitem (setitem (setitem (setitem (setitem (setitem df
       ''number_of_podocytes'' (Num (real (len df))))
       ''podocyte_density'' (Num (real (len df) / (real_of_int (filled_area glom) * vv))))
       ''glomeruli_index'' (Num (real_of_int i)))
       ''glomeruli_label_number'' (Num (real_of_int (label glom))))
       ''glomeruli_voxel_number'' (Num (real_of_int (filled_area glom))))
       ''glomeruli_volume'' (Num (real_of_int (filled_area glom) * vv)))
       ''glomeruli_equiv_diam_pixels'' (Num (equivalent_diameter glom)))
       ''glomeruli_centroid_x'' (Num (centroid glom ! 2)))
       ''glomeruli_centroid_y'' (Num (centroid glom ! 1)))
       ''glomeruli_centroid_z'' (Num (centroid glom ! 0)))"
  have "glom_statistics df glom i vv = Inr ?res" by (rule glom_statistics_Inr [OF assms])
  moreover have "length (rows ?res) = length (rows df)"
    by (simp add: rows_setitem)
  moreover have "set (drop 10 glomerulus_columns) \<subseteq> set (columns ?res)"
    by (simp add: columns_setitem glomerulus_columns_def)
  moreover have "set (columns df) \<subseteq> set (columns ?res)"
    by (simp only: columns_setitem) blast
  moreover have "\<forall>r \<in> set (rows ?res).
                 r ''glomeruli_voxel_number'' = Num (real_of_int (filled_area glom))
               \<and> r ''glomeruli_index'' = Num (real_of_int i)"
    by (simp add: rows_setitem)
  ultimately show ?thesis by blast
qed


lemma glom_loop_synthetic:
  assumes L: "shape L = [n, 2, 2]" and V: "shape V = [n, 2, 2]"
  shows "\<exists>df2. glom_loop synthetic_library V 2 [whole_image_region L] detailed i
                 = Inr (append_frame detailed df2, i + 1)
             \<and> length (rows df2) = 1
             \<and> set glomerulus_columns \<subseteq> set (columns df2)
             \<and> (\<forall>r \<in> set (rows df2). r ''glomeruli_voxel_number'' = Num (real (n * 4))
                                       \<and> r ''glomeruli_index'' = Num (real_of_int i))"
proof -
  have "shape L = shape V" "shape V \<noteq> []" by (simp_all add: L V)
  from find_podocytes_synthetic [OF this, of 1 4 "0.17"] obtain w where
    w: "shape w = [n + 20, 22, 22]" and
    fp: "find_podocytes synthetic_library V (whole_image_region L) 1 4 0.17
           = Inr ([whole_image_region w], [- 10, - 10, - 10], w)"
    by (auto simp: V)
  have ps: "podocyte_statistics [whole_image_region w] [- 10, - 10, - 10] 2
           = Inr (Some (append_dict DataFrame (pod_row n)))"
    by (rule podocyte_statistics_synthetic [OF w])
  obtain r0 where avg: "podocyte_avg_statistics (append_dict DataFrame (pod_row n))
         = Inr \<lparr>columns = take 10 glomerulus_columns, rows = [r0]\<rparr>"
    using podocyte_avg_statistics_synthetic by blast
  have three: "3 \<le> length (centroid (whole_image_region L))"
    by (simp add: whole_image_region_def L)
  from glom_statistics_rows [OF three, of "\<lparr>columns = take 10 glomerulus_columns, rows = [r0]\<rparr>" i 2]
  obtain df2 where gs: "glom_statistics \<lparr>columns = take 10 glomerulus_columns, rows = [r0]\<rparr>
                          (whole_image_region L) i 2 = Inr df2"
    and len: "length (rows df2) = 1"
    and c1: "set (drop 10 glomerulus_columns) \<subseteq> set (columns df2)"
    and c2: "set (take 10 glomerulus_columns) \<subseteq> set (columns df2)"
    and vals: "\<forall>r \<in> set (rows df2).
                 r ''glomeruli_voxel_number'' = Num (real_of_int (filled_area (whole_image_region L)))
               \<and> r ''glomeruli_index'' = Num (real_of_int i)"
    by auto
  have fa: "filled_area (whole_image_region L) = int (n * 4)"
    by (simp add: whole_image_region_def L)
  have cols: "set glomerulus_columns \<subseteq> set (columns df2)"
    using c1 c2 set_append [of "take 10 glomerulus_columns" "drop 10 glomerulus_columns"]
    by (simp only: append_take_drop_id) blast
  have "glom_loop synthetic_library V 2 [whole_image_region L] detailed i
                 = Inr (append_frame detailed df2, i + 1)"
  proof -
    have nl: "(length (centroid (whole_image_region L)) < 3) = False" using three by simp
    show ?thesis
      by (simp only: glom_loop.simps fp ps avg gs nl if_False sum.case prod.case option.case)
  qed
  with len cols vals fa show ?thesis by (intro exI [of _ df2]) simp
qed


lemma series_body_synthetic:
  assumes "1 \<le> n" and "n \<le> 300"
  shows "\<exists>df2. series_body synthetic_library wide_params f
                 \<lparr>ImageID = i, ImageName = nm, image0 = constant_frame [n, 2, 2, 2]\<rparr> detailed
               = Inr (add_image_details (append_frame detailed df2) i nm f)
             \<and> length (rows df2) = 1
             \<and> set glomerulus_columns \<subseteq> set (columns df2)
             \<and> (\<forall>r \<in> set (rows df2). r ''glomeruli_voxel_number'' = Num (real (n * 4)))"
proof -
  define view where "view c = \<lparr>pixels = \<lparr>shape = [n, 2, 2],
                                          item = (\<lambda>idx. item (constant_array [n, 2, 2, 2] (1::real)) (idx @ [c]))\<rparr>,
                               mpp = 1, mppZ = 2, axes = ''zyxc''\<rparr>" for c :: nat
  define V0 where "V0 = view 0"
  define V1 where "V1 = view 1"
  have gc: "getitem_channel (constant_frame [n, 2, 2, 2]) 0 = Inr V0"
    "getitem_channel (constant_frame [n, 2, 2, 2]) 1 = Inr V1"
    by (simp_all add: getitem_channel_def constant_frame_def constant_array_def axis_index_def
        view_def V0_def V1_def)
  have den: "denoise_image synthetic_library (view c) = Inr (pixels (view c))" for c
    by (simp add: denoise_image_def np_divide_def synthetic_library_def ndim_def view_def)
  define L where "L = measure_label synthetic_library
                        (greater_than (pixels V0) (threshold_yen synthetic_library (pixels V0)))"
  have pre: "preprocess_glomeruli synthetic_library V0 = Inr L"
    by (simp add: preprocess_glomeruli_def den L_def V0_def)
  have sL: "shape L = [n, 2, 2]"
    by (simp add: L_def synthetic_library_def greater_than_def view_def V0_def)
  have fil: "filter_by_size synthetic_library L 1 300 = [whole_image_region L]"
    using assms by (simp add: filter_by_size_def synthetic_library_def whole_image_region_def sL)
  have sV: "shape (pixels V1) = [n, 2, 2]" by (simp add: view_def V1_def)
  from glom_loop_synthetic [OF sL sV, of detailed 0] obtain df2 where
    gl: "glom_loop synthetic_library (pixels V1) 2 [whole_image_region L] detailed 0
           = Inr (append_frame detailed df2, 1)"
    and rest: "length (rows df2) = 1" "set glomerulus_columns \<subseteq> set (columns df2)"
      "\<forall>r \<in> set (rows df2). r ''glomeruli_voxel_number'' = Num (real (n * 4))"
    by auto
  have den1: "denoise_image synthetic_library V1 = Inr (pixels V1)"
    unfolding V1_def by (rule den)
  have vv: "mpp (constant_frame [n, 2, 2, 2]) * mpp (constant_frame [n, 2, 2, 2])
              * mppZ (constant_frame [n, 2, 2, 2]) = 2"
    by (simp add: constant_frame_def)
  have "series_body synthetic_library wide_params f
          \<lparr>ImageID = i, ImageName = nm, image0 = constant_frame [n, 2, 2, 2]\<rparr> detailed
        = Inr (add_image_details (append_frame detailed df2) i nm f)"
    by (simp add: series_body_def wide_params_def gc pre fil den1 gl vv del: glom_loop.simps)
  with rest show ?thesis by blast
qed

lemma rows_add_image_details:
  "rows (add_image_details d i n f) =
     map (\<lambda>r. r(''image_series_num'' := Str i, ''image_series_name'' := Str n,
                 ''image_filename'' := Str f)) (rows d)"
  by (simp add: add_image_details_def rows_setitem)

lemma columns_add_image_details:
  "set (columns (add_image_details d i n f)) =
     set (columns d) \<union> {''image_series_num'', ''image_series_name'', ''image_filename''}"
  by (auto simp: add_image_details_def columns_setitem)

lemma series_body_labels_every_row:
  assumes "series_body lib p f s detailed = Inr d'"
  shows "\<forall>r \<in> set (rows d'). r ''image_series_num'' = Str (ImageID s)
           \<and> r ''image_series_name'' = Str (ImageName s) \<and> r ''image_filename'' = Str f"
proof -
  from assms obtain x where "d' = add_image_details x (ImageID s) (ImageName s) f"
    by (auto simp: series_body_def Let_def split: sum.splits)
  then show ?thesis by (simp add: rows_add_image_details)
qed

lemma summary_in_glomerulus_columns:
  "set summary_columns \<subseteq>
     set glomerulus_columns \<union> {''image_series_num'', ''image_series_name'', ''image_filename''}"
  by (simp add: summary_columns_def glomerulus_columns_def)

text \<open>
  Claim C1. Every row of the detailed table should keep the file and series identifiers of
  the series that produced it. Lines 84-86 assign the identifiers of the current series to
  whole columns of the accumulated table (\<open>series_body_labels_every_row\<close>), so each series
  relabels the rows of all earlier series and files. On the synthetic batch the rows of
  the two series of \<open>a.lif\<close> (glomerulus voxel numbers 8 and 12) end with the identifiers
  of the one series of \<open>b.lif\<close>, the last one processed.
\<close>

theorem image_details_overwritten:
  "\<exists>r s. main synthetic_library two_files three_series wide_params = Inr (r, s)
     \<and> map (\<lambda>row. (row ''glomeruli_voxel_number'', row ''image_series_num'',
                    row ''image_series_name'', row ''image_filename''))
           (rows (detailed_stats r))
         = [(Num 8, Str ''Image:0'', Str ''Series003'', Str ''data/b.lif''),
            (Num 12, Str ''Image:0'', Str ''Series003'', Str ''data/b.lif''),
            (Num 16, Str ''Image:0'', Str ''Series003'', Str ''data/b.lif'')]"
proof -
  have files: "find_files two_files (input_directory wide_params) (ext wide_params)
                 = [''data/a.lif'', ''data/b.lif'']"
    by (simp add: find_files_def two_files_def wide_params_def os_path_join_def
        endswith_def startswith_def)
  have open_a: "three_series ''data/a.lif'' =
      Inr [\<lparr>ImageID = ''Image:0'', ImageName = ''Series001'', image0 = constant_frame [2, 2, 2, 2]\<rparr>,
           \<lparr>ImageID = ''Image:1'', ImageName = ''Series002'', image0 = constant_frame [3, 2, 2, 2]\<rparr>]"
    and open_b: "three_series ''data/b.lif'' =
      Inr [\<lparr>ImageID = ''Image:0'', ImageName = ''Series003'', image0 = constant_frame [4, 2, 2, 2]\<rparr>]"
    by (simp_all add: three_series_def)
  define D0 where "D0 = DataFrame"
  obtain df1 where b1: "series_body synthetic_library wide_params ''data/a.lif''
        \<lparr>ImageID = ''Image:0'', ImageName = ''Series001'', image0 = constant_frame [2, 2, 2, 2]\<rparr> D0
      = Inr (add_image_details (append_frame D0 df1) ''Image:0'' ''Series001'' ''data/a.lif'')"
    and l1: "length (rows df1) = 1" and c1: "set glomerulus_columns \<subseteq> set (columns df1)"
    and v1: "\<forall>r \<in> set (rows df1). r ''glomeruli_voxel_number'' = Num (real (2 * 4))"
    using series_body_synthetic [where n = 2 and f = "''data/a.lif''" and i = "''Image:0''"
        and nm = "''Series001''" and detailed = D0] by auto
  define D1 where "D1 = add_image_details (append_frame D0 df1) ''Image:0'' ''Series001'' ''data/a.lif''"
  obtain df2 where b2: "series_body synthetic_library wide_params ''data/a.lif''
        \<lparr>ImageID = ''Image:1'', ImageName = ''Series002'', image0 = constant_frame [3, 2, 2, 2]\<rparr> D1
      = Inr (add_image_details (append_frame D1 df2) ''Image:1'' ''Series002'' ''data/a.lif'')"
    and l2: "length (rows df2) = 1"
    and v2: "\<forall>r \<in> set (rows df2). r ''glomeruli_voxel_number'' = Num (real (3 * 4))"
    using series_body_synthetic [where n = 3 and f = "''data/a.lif''" and i = "''Image:1''"
        and nm = "''Series002''" and detailed = D1] by auto
  define D2 where "D2 = add_image_details (append_frame D1 df2) ''Image:1'' ''Series002'' ''data/a.lif''"
  obtain df3 where b3: "series_body synthetic_library wide_params ''data/b.lif''
        \<lparr>ImageID = ''Image:0'', ImageName = ''Series003'', image0 = constant_frame [4, 2, 2, 2]\<rparr> D2
      = Inr (add_image_details (append_frame D2 df3) ''Image:0'' ''Series003'' ''data/b.lif'')"
    and l3: "length (rows df3) = 1"
    and v3: "\<forall>r \<in> set (rows df3). r ''glomeruli_voxel_number'' = Num (real (4 * 4))"
    using series_body_synthetic [where n = 4 and f = "''data/b.lif''" and i = "''Image:0''"
        and nm = "''Series003''" and detailed = D2] by auto
  define D3 where "D3 = add_image_details (append_frame D2 df3) ''Image:0'' ''Series003'' ''data/b.lif''"
  have loop: "file_loop synthetic_library three_series wide_params [''data/a.lif'', ''data/b.lif'']
                \<lparr>detailed_stats = D0, detailed_csv = None\<rparr>
              = Inr \<lparr>detailed_stats = D3, detailed_csv = Some D3\<rparr>"
    by (simp add: open_a open_b b1 b2 b3 D1_def [symmetric] D2_def [symmetric] D3_def [symmetric])
  from l1 obtain r1 where r1: "rows df1 = [r1]" by (cases "rows df1") auto
  from l2 obtain r2 where r2: "rows df2 = [r2]" by (cases "rows df2") auto
  from l3 obtain r3 where r3: "rows df3 = [r3]" by (cases "rows df3") auto
  have vals: "r1 ''glomeruli_voxel_number'' = Num 8" "r2 ''glomeruli_voxel_number'' = Num 12"
    "r3 ''glomeruli_voxel_number'' = Num 16"
    using v1 v2 v3 by (simp_all add: r1 r2 r3)
  have rows: "map (\<lambda>row. (row ''glomeruli_voxel_number'', row ''image_series_num'',
                    row ''image_series_name'', row ''image_filename'')) (rows D3)
         = [(Num 8, Str ''Image:0'', Str ''Series003'', Str ''data/b.lif''),
            (Num 12, Str ''Image:0'', Str ''Series003'', Str ''data/b.lif''),
            (Num 16, Str ''Image:0'', Str ''Series003'', Str ''data/b.lif'')]"
    by (simp add: D3_def D2_def D1_def D0_def DataFrame_def rows_add_image_details rows_append_frame
        r1 r2 r3 vals)
  have len: "len D3 > 0"
    by (simp add: len_def D3_def rows_add_image_details rows_append_frame r3)
  have cols: "set summary_columns \<subseteq> set (columns D3)"
    using summary_in_glomerulus_columns c1
    by (simp only: D3_def D2_def D1_def columns_add_image_details columns_append_frame) blast
  from create_summary_stats_rows [OF len cols] obtain s where
    s: "create_summary_stats D3 = Inr (Some s)" by blast
  have "main synthetic_library two_files three_series wide_params
          = Inr (\<lparr>detailed_stats = D3, detailed_csv = Some D3\<rparr>, s)"
    by (simp only: main_def Let_def files loop [unfolded D0_def] sum.case) (simp add: s)
  with rows show ?thesis by (intro exI [of _ "\<lparr>detailed_stats = D3, detailed_csv = Some D3\<rparr>"] exI [of _ s]) simp
qed


subsection \<open>A run whose glomeruli are all skipped\<close>

lemma series_body_blind:
  assumes "1 \<le> n" and "n \<le> 300"
  shows "series_body blind_library wide_params f
           \<lparr>ImageID = i, ImageName = nm, image0 = constant_frame [n, 2, 2, 2]\<rparr> detailed
         = Inr (add_image_details detailed i nm f)"
proof -
  define view where "view c = \<lparr>pixels = \<lparr>shape = [n, 2, 2],
                                          item = (\<lambda>idx. item (constant_array [n, 2, 2, 2] (1::real)) (idx @ [c]))\<rparr>,
                               mpp = 1, mppZ = 2, axes = ''zyxc''\<rparr>" for c :: nat
  define V0 where "V0 = view 0"
  define V1 where "V1 = view 1"
  have gc: "getitem_channel (constant_frame [n, 2, 2, 2]) 0 = Inr V0"
    "getitem_channel (constant_frame [n, 2, 2, 2]) 1 = Inr V1"
    by (simp_all add: getitem_channel_def constant_frame_def constant_array_def axis_index_def
        view_def V0_def V1_def)
  have den: "denoise_image blind_library (view c) = Inr (pixels (view c))" for c
    by (simp add: denoise_image_def np_divide_def blind_library_simps ndim_def view_def)
  define L where "L = measure_label blind_library
                        (greater_than (pixels V0) (threshold_yen blind_library (pixels V0)))"
  have pre: "preprocess_glomeruli blind_library V0 = Inr L"
    by (simp add: preprocess_glomeruli_def den L_def V0_def)
  have sL: "shape L = [n, 2, 2]"
    by (simp add: L_def blind_library_simps greater_than_def view_def V0_def)
  have fil: "filter_by_size blind_library L 1 300 = [whole_image_region L]"
    using assms by (simp add: filter_by_size_def blind_library_simps whole_image_region_def sL)
  have sV: "shape (pixels V1) = [n, 2, 2]" by (simp add: view_def V1_def)
  have gl: "glom_loop blind_library (pixels V1) 2 [whole_image_region L] detailed 0 = Inr (detailed, 0)"
    by (rule glom_loop_blind) (simp_all add: sL sV)
  have den1: "denoise_image blind_library V1 = Inr (pixels V1)"
    unfolding V1_def by (rule den)
  have vv: "mpp (constant_frame [n, 2, 2, 2]) * mpp (constant_frame [n, 2, 2, 2])
              * mppZ (constant_frame [n, 2, 2, 2]) = 2"
    by (simp add: constant_frame_def)
  show ?thesis
    by (simp add: series_body_def wide_params_def gc pre fil den1 gl vv del: glom_loop.simps)
qed

text \<open>
  Claim C8. For a glomerulus without podocyte regions the measurement step should return
  an empty-result signal and no error, and the orchestrator should skip the glomerulus and
  go on without failing the run. The first part holds (\<open>no_podocytes_skipped\<close>), the run
  does not survive it when it happens to every glomerulus of the batch. On a batch of one
  file with one series and one glomerulus, for which \<open>find_podocytes\<close> finds no region:
  \<open>podocyte_statistics\<close> returns \<open>None\<close>, the loop over the glomeruli and the series end
  without error and without a row, and \<open>main\<close> then stops with the AttributeError of
  \<open>summary_stats.to_csv\<close>, since \<open>create_summary_stats\<close> returned \<open>None\<close> for the empty table.
\<close>

theorem skipped_glomeruli_fail_the_run:
  "(\<exists>off w. find_podocytes blind_library (constant_array [2, 2, 2] 1)
                (whole_image_region (constant_array [2, 2, 2] 1)) 1 4 0.17 = Inr ([], off, w)
            \<and> podocyte_statistics [] off 2 = Inr None)
   \<and> glom_loop blind_library (constant_array [2, 2, 2] 1) 2
        [whole_image_region (constant_array [2, 2, 2] 1)] DataFrame 0 = Inr (DataFrame, 0)
   \<and> series_body blind_library wide_params ''data/a.lif''
        \<lparr>ImageID = ''Image:0'', ImageName = ''Series001'', image0 = constant_frame [2, 2, 2, 2]\<rparr>
        DataFrame
      = Inr (add_image_details DataFrame ''Image:0'' ''Series001'' ''data/a.lif'')
   \<and> len (add_image_details DataFrame ''Image:0'' ''Series001'' ''data/a.lif'') = 0
   \<and> main blind_library one_file one_series wide_params = Inl AttributeError"
proof -
  let ?V = "constant_array [2, 2, 2] (1::real)"
  let ?G = "whole_image_region (constant_array [2, 2, 2] (1::int))"
  let ?D = "add_image_details DataFrame ''Image:0'' ''Series001'' ''data/a.lif''"
  have shp: "shape (constant_array [2, 2, 2] (1::int)) = shape ?V" "shape ?V \<noteq> []"
    by (simp_all add: constant_array_def)
  from find_podocytes_blind [OF shp, of 1 4 "0.17"] obtain w where
    fp: "find_podocytes blind_library ?V ?G 1 4 0.17 = Inr ([], map (\<lambda>n. - 10) (shape ?V), w)"
    by blast
  have step: "\<exists>off w. find_podocytes blind_library ?V ?G 1 4 0.17 = Inr ([], off, w)
                \<and> podocyte_statistics [] off 2 = Inr None"
    using fp podocyte_statistics_empty by blast
  have loop: "glom_loop blind_library ?V 2 [?G] DataFrame 0 = Inr (DataFrame, 0)"
    by (rule glom_loop_blind [OF shp])
  have body: "series_body blind_library wide_params ''data/a.lif''
        \<lparr>ImageID = ''Image:0'', ImageName = ''Series001'', image0 = constant_frame [2, 2, 2, 2]\<rparr>
        DataFrame = Inr ?D"
    by (rule series_body_blind) simp_all
  have empty: "len ?D = 0"
    by (simp add: add_image_details_def len_setitem) (simp add: len_def DataFrame_def)
  have files: "find_files one_file (input_directory wide_params) (ext wide_params) = [''data/a.lif'']"
    by (simp add: find_files_def one_file_def wide_params_def os_path_join_def
        endswith_def startswith_def)
  have floop: "file_loop blind_library one_series wide_params [''data/a.lif'']
                 \<lparr>detailed_stats = DataFrame, detailed_csv = None\<rparr>
               = Inr \<lparr>detailed_stats = ?D, detailed_csv = Some ?D\<rparr>"
    by (simp add: one_series_def body)
  have none: "create_summary_stats ?D = Inr None"
    using empty by (simp add: create_summary_stats_def)
  have "main blind_library one_file one_series wide_params = Inl AttributeError"
    by (simp only: main_def Let_def files floop sum.case) (simp add: none)
  with step loop body empty show ?thesis by blast
qed

end
